theory Spec2Isabelle
  imports Main "HOL-Library.Sublist" "HOL-Library.Stream" "HOL-Library.Multiset"
begin

section \<open>The isekai life simulator (isekai\_simulation.py)\<close>

text \<open>
  A shallow embedding of the text adventure: the choice catalogue, the character record, the
  index prompt, the three tagged event outcomes and the epilogue.

  Conventions of the embedding.
  \<^item> A Python \<open>str\<close> is a \<open>string\<close> whose characters are the code points below 256.
    All text of the program that the model uses lies there (Portuguese in Latin-1); the
    character classes below are those of Python on that range.
  \<^item> A Python \<open>int\<close> is an \<open>int\<close>; \<open>//\<close> is \<open>div\<close> (both round down).
  \<^item> A \<open>dict\<close> is an association list in insertion order, its keys distinct.
  \<^item> Standard input is the list of lines still to be read; reading from the empty list is
    the end of input, where \<open>input()\<close> raises \<open>EOFError\<close>. An error that is raised
    comes with the console as it is at that moment.
  \<^item> The random generator is the stream of its future raw draws.
\<close>

subsection \<open>Python strings\<close>

definition cp :: "char \<Rightarrow> nat" where
  "cp c = of_char c"

text \<open>\<open>str.isspace\<close> on one character, which is what \<open>str.strip()\<close> removes.\<close>

definition py_isspace :: "char \<Rightarrow> bool" where
  "py_isspace c = (let n = cp c in (9 \<le> n \<and> n \<le> 13) \<or> (28 \<le> n \<and> n \<le> 32) \<or> n = 133 \<or> n = 160)"

definition strip :: "string \<Rightarrow> string" where
  "strip s = rev (dropWhile py_isspace (rev (dropWhile py_isspace s)))"

text \<open>\<open>str.lower\<close>: A-Z and the capital letters of Latin-1 (all of 192..222 but the
  multiplication sign 215) move up by 32.\<close>

definition lower_char :: "char \<Rightarrow> char" where
  "lower_char c = (let n = cp c in
     if (65 \<le> n \<and> n \<le> 90) \<or> (192 \<le> n \<and> n \<le> 222 \<and> n \<noteq> 215) then char_of (n + 32) else c)"

definition lower :: "string \<Rightarrow> string" where
  "lower s = map lower_char s"

text \<open>The title case of one character, as \<open>str.capitalize\<close> applies it to the first
  character: a-z and the small letters of Latin-1 (224..254 but the division sign 247) move
  down by 32 and the sharp s (223) becomes \<open>Ss\<close>. The capitals of the micro sign (181) and
  of y with diaeresis (255) lie above code point 255: the model leaves these two characters
  as they are.\<close>

definition title_char :: "char \<Rightarrow> string" where
  "title_char c = (let n = cp c in
     if (97 \<le> n \<and> n \<le> 122) \<or> (224 \<le> n \<and> n \<le> 254 \<and> n \<noteq> 247) then [char_of (n - 32)]
     else if n = 223 then ''Ss'' else [c])"

fun capitalize :: "string \<Rightarrow> string" where
  "capitalize [] = []"
| "capitalize (c # cs) = title_char c @ lower cs"

text \<open>\<open>sep.join(parts)\<close>.\<close>

fun join :: "string \<Rightarrow> string list \<Rightarrow> string" where
  "join sep [] = []"
| "join sep [x] = x"
| "join sep (x # y # ys) = x @ sep @ join sep (y # ys)"

text \<open>The decimal digits of a natural number, then \<open>str(n)\<close> (which is what \<open>{n}\<close>
  gives in an f-string) and the format \<open>{n:+d}\<close>, which always writes the sign.\<close>

fun digitos :: "nat \<Rightarrow> string" where
  "digitos n =
     (if n < 10 then [''0123456789'' ! n] else digitos (n div 10) @ [''0123456789'' ! (n mod 10)])"

declare digitos.simps [simp del]

definition str_int :: "int \<Rightarrow> string" where
  "str_int i = (if i < 0 then ''-'' @ digitos (nat (- i)) else digitos (nat i))"

definition fmt_sinal :: "int \<Rightarrow> string" where
  "fmt_sinal i = (if i < 0 then ''-'' @ digitos (nat (- i)) else ''+'' @ digitos (nat i))"

text \<open>\<open>sub in s\<close> for strings is \<^const>\<open>sublist\<close>: a run of consecutive characters.\<close>

subsection \<open>\<open>wrap\<close>: \<open>textwrap.fill(text, width=88)\<close>\<close>

text \<open>
  The standard library's wrapper with its defaults (tabs expanded, whitespace replaced, long
  words broken, hyphenated words split, line ends stripped), as of Python 3.11.

  Its character classes: the ASCII whitespace of the module, \<open>\w\<close> of the regular
  expressions (letters, digits and the underscore), and the module's \<open>letter\<close> (\<open>\w\<close>
  without the decimal digits) and \<open>word_punct\<close>.
\<close>

definition ws_char :: "char \<Rightarrow> bool" where
  "ws_char c = (let n = cp c in (9 \<le> n \<and> n \<le> 13) \<or> n = 32)"

definition word_char :: "char \<Rightarrow> bool" where
  "word_char c = (let n = cp c in
     (48 \<le> n \<and> n \<le> 57) \<or> (65 \<le> n \<and> n \<le> 90) \<or> n = 95 \<or> (97 \<le> n \<and> n \<le> 122) \<or>
     n = 170 \<or> n = 178 \<or> n = 179 \<or> n = 181 \<or> n = 185 \<or> n = 186 \<or> (188 \<le> n \<and> n \<le> 190) \<or>
     (192 \<le> n \<and> n \<le> 214) \<or> (216 \<le> n \<and> n \<le> 246) \<or> 248 \<le> n)"

definition letter :: "char \<Rightarrow> bool" where
  "letter c = (word_char c \<and> \<not> (48 \<le> cp c \<and> cp c \<le> 57))"

definition word_punct :: "char \<Rightarrow> bool" where
  "word_punct c = (word_char c \<or> c \<in> set (''!&.,?'' @ [CHR 0x22, CHR 0x27]))"

text \<open>\<open>str.expandtabs(8)\<close>, the column counted from the last line break.\<close>

fun expandtabs :: "nat \<Rightarrow> string \<Rightarrow> string" where
  "expandtabs j [] = []"
| "expandtabs j (c # cs) =
     (if c = CHR 0x09 then replicate (8 - j mod 8) CHR '' '' @ expandtabs (j + (8 - j mod 8)) cs
      else c # expandtabs (if c = CHR 0x0A \<or> c = CHR 0x0D then 0 else j + 1) cs)"

definition munge_whitespace :: "string \<Rightarrow> string" where
  "munge_whitespace text = map (\<lambda>c. if ws_char c then CHR '' '' else c) (expandtabs 0 text)"

text \<open>
  \<open>_split\<close>: the chunks that \<open>wordsep_re\<close> cuts the text into. The functions below read
  the text from a position on; \<open>antes\<close> is the text before that position, reversed, for the
  look-behinds of the expression.

  \<open>hifens_palavra\<close> is the look-ahead \<open>-{2,}\w\<close>: two hyphens or more, then a word
  character.
\<close>

definition hifens_palavra :: "string \<Rightarrow> bool" where
  "hifens_palavra t =
     (2 \<le> length (takeWhile (\<lambda>c. c = CHR ''-'') t) \<and>
      (case dropWhile (\<lambda>c. c = CHR ''-'') t of [] \<Rightarrow> False | c # _ \<Rightarrow> word_char c))"

text \<open>The hyphen of a hyphenated word: before it two letters, or letter, hyphen, letter;
  after it a letter, then a letter or a hyphen and a letter.\<close>

definition hifen_composto :: "string \<Rightarrow> string \<Rightarrow> bool" where
  "hifen_composto antes depois =
     ((case antes of a # b # r \<Rightarrow>
          (letter a \<and> letter b) \<or>
          (letter a \<and> b = CHR ''-'' \<and> (case r of [] \<Rightarrow> False | c # _ \<Rightarrow> letter c))
        | _ \<Rightarrow> False) \<and>
      (case depois of x # y # r \<Rightarrow>
          letter x \<and> (letter y \<or> (y = CHR ''-'' \<and> (case r of [] \<Rightarrow> False | z # _ \<Rightarrow> letter z)))
        | _ \<Rightarrow> False))"

text \<open>The third alternative of the expression, a word: the shortest run of non-whitespace
  (at least one character, already read when \<open>fim_palavra\<close> is called) that ends with the
  hyphen of a hyphenated word, or at a whitespace or the end of the text, or before a dash.
  The result is the number of further characters the chunk takes.\<close>

fun fim_palavra :: "string \<Rightarrow> string \<Rightarrow> nat" where
  "fim_palavra antes [] = 0"
| "fim_palavra antes (c # t) =
     (if c = CHR ''-'' \<and> hifen_composto antes t then 1
      else if ws_char c then 0
      else if (case antes of [] \<Rightarrow> False | a # _ \<Rightarrow> word_punct a) \<and> hifens_palavra (c # t) then 0
      else Suc (fim_palavra (c # antes) t))"

text \<open>The length of the chunk that starts the non-empty text \<open>t\<close>: a run of whitespace, or
  a dash between words, or a word.\<close>

definition tamanho_chunk :: "string \<Rightarrow> string \<Rightarrow> nat" where
  "tamanho_chunk antes t =
     (case t of [] \<Rightarrow> 0
      | c # r \<Rightarrow>
         if ws_char c then length (takeWhile ws_char t)
         else if (case antes of [] \<Rightarrow> False | a # _ \<Rightarrow> word_punct a) \<and> hifens_palavra t
           then length (takeWhile (\<lambda>c. c = CHR ''-'') t)
         else Suc (fim_palavra (c # antes) r))"

lemma tamanho_chunk_pos: "t \<noteq> [] \<Longrightarrow> 0 < tamanho_chunk antes t"
  by (cases t) (auto simp: tamanho_chunk_def hifens_palavra_def)

function split_chunks :: "string \<Rightarrow> string \<Rightarrow> string list" where
  "split_chunks antes t =
     (if t = [] then []
      else let n = tamanho_chunk antes t
           in take n t # split_chunks (rev (take n t) @ antes) (drop n t))"
  by pat_completeness auto
termination
  by (relation "measure (\<lambda>(antes, t). length t)") (auto simp: tamanho_chunk_pos)

declare split_chunks.simps [simp del]

text \<open>
  \<open>_wrap_chunks\<close> at width 88 with no indent. \<open>encher\<close> is the inner loop: the chunks
  that still fit on the line. \<open>so_espacos\<close> is the test \<open>chunk.strip() == ''\<close>.
\<close>

definition largura :: nat where
  "largura = 88"

definition so_espacos :: "string \<Rightarrow> bool" where
  "so_espacos s = list_all py_isspace s"

fun encher :: "nat \<Rightarrow> string list \<Rightarrow> string list \<times> string list" where
  "encher cur_len [] = ([], [])"
| "encher cur_len (c # cs) =
     (if cur_len + length c \<le> largura
      then (let (l, r) = encher (cur_len + length c) cs in (c # l, r))
      else ([], c # cs))"

text \<open>\<open>chunk.rfind('-', 0, space_left)\<close>: the last hyphen among the first \<open>space_left\<close>
  characters, if there is one.\<close>

definition rfind_hifen :: "string \<Rightarrow> nat \<Rightarrow> nat option" where
  "rfind_hifen chunk space_left =
     (case filter (\<lambda>i. chunk ! i = CHR ''-'') (rev [0..<min space_left (length chunk)]) of
        [] \<Rightarrow> None | i # _ \<Rightarrow> Some i)"

text \<open>\<open>_handle_long_word\<close>: the first chunk is longer than a line; as much of it as the
  line has room for goes to the line, cut after its last hyphen there if it has one with
  something other than hyphens before it.\<close>

definition handle_long_word :: "string list \<Rightarrow> string list \<Rightarrow> nat \<Rightarrow> string list \<times> string list" where
  "handle_long_word chunks cur_line cur_len =
     (case chunks of [] \<Rightarrow> (cur_line, chunks)
      | chunk # cs \<Rightarrow>
         let space_left = largura - cur_len;
             fim = (case rfind_hifen chunk space_left of
                      Some h \<Rightarrow> if 0 < h \<and> (\<exists>c \<in> set (take h chunk). c \<noteq> CHR ''-'') then h + 1 else space_left
                    | None \<Rightarrow> space_left)
         in (cur_line @ [take fim chunk], drop fim chunk # cs))"

text \<open>
  One round of the outer loop, step by step. \<open>primeira\<close> says that no line has been
  written yet.
  \<^item> \<open>tirar_inicial\<close>: a whitespace chunk that would start a line other than the first is
    dropped.
  \<^item> \<open>palavra_longa\<close>: after the inner loop, a next chunk too long for any line is cut.
  \<^item> \<open>tirar_final\<close>: a whitespace chunk that ends the line is dropped.
  \<open>uma_linha\<close> gives the chunks of the line and the chunks left.
\<close>

definition tirar_inicial :: "bool \<Rightarrow> string list \<Rightarrow> string list" where
  "tirar_inicial primeira chunks =
     (case chunks of [] \<Rightarrow> [] | c # cs \<Rightarrow> if so_espacos c \<and> \<not> primeira then cs else c # cs)"

definition palavra_longa :: "string list \<times> string list \<Rightarrow> string list \<times> string list" where
  "palavra_longa st =
     (case snd st of [] \<Rightarrow> st
      | c # cs \<Rightarrow>
         if largura < length c
         then handle_long_word (c # cs) (fst st) (sum_list (map length (fst st)))
         else st)"

definition tirar_final :: "string list \<Rightarrow> string list" where
  "tirar_final cur_line =
     (if cur_line \<noteq> [] \<and> so_espacos (last cur_line) then butlast cur_line else cur_line)"

definition uma_linha :: "bool \<Rightarrow> string list \<Rightarrow> string list \<times> string list" where
  "uma_linha primeira chunks =
     (let (cur_line, resto) = palavra_longa (encher 0 (tirar_inicial primeira chunks))
      in (tirar_final cur_line, resto))"

definition peso :: "string list \<Rightarrow> nat" where
  "peso chunks = sum_list (map (\<lambda>c. Suc (length c)) chunks)"

lemma peso_encher:
  "encher n cs = (l, r) \<Longrightarrow> peso r \<le> peso cs \<and> (l \<noteq> [] \<longrightarrow> peso r < peso cs) \<and> (l = [] \<longrightarrow> r = cs)"
proof (induction cs arbitrary: n l r)
  case Nil
  then show ?case by simp
next
  case (Cons c cs)
  show ?case
  proof (cases "n + length c \<le> largura")
    case True
    obtain l' r' where e: "encher (n + length c) cs = (l', r')"
      by (cases "encher (n + length c) cs")
    from Cons.IH [OF e] have "peso r' \<le> peso cs" by simp
    moreover from Cons.prems True e have "l = c # l'" "r = r'" by simp_all
    ultimately show ?thesis by (simp add: peso_def)
  next
    case False
    with Cons.prems show ?thesis by simp
  qed
qed

lemma encher_vazio: "encher n (c # cs) = ([], r) \<Longrightarrow> largura < n + length c"
  by (cases "n + length c \<le> largura") (auto split: prod.splits)

lemma peso_handle_long_word:
  assumes "handle_long_word (c # cs) l n = (l', r)"
  shows "peso r \<le> peso (c # cs)" and "n = 0 \<Longrightarrow> largura < length c \<Longrightarrow> peso r < peso (c # cs)"
proof -
  define fim where "fim = (case rfind_hifen c (largura - n) of
       Some h \<Rightarrow> if 0 < h \<and> (\<exists>x \<in> set (take h c). x \<noteq> CHR ''-'') then h + 1 else largura - n
     | None \<Rightarrow> largura - n)"
  have r: "r = drop fim c # cs"
    using assms by (simp add: handle_long_word_def Let_def fim_def)
  have pos: "0 < fim" if "n = 0"
    using that by (simp add: fim_def largura_def split: option.splits)
  show "peso r \<le> peso (c # cs)"
    by (simp add: r peso_def)
  show "peso r < peso (c # cs)" if "n = 0" "largura < length c"
    using pos [OF that(1)] that(2) by (simp add: r peso_def largura_def)
qed

lemma peso_palavra_longa: "peso (snd (palavra_longa (l, r))) \<le> peso r"
proof (cases r)
  case Nil
  then show ?thesis by (simp add: palavra_longa_def)
next
  case (Cons c cs)
  show ?thesis
  proof (cases "largura < length c")
    case True
    obtain l' r' where h: "handle_long_word (c # cs) l (sum_list (map length l)) = (l', r')"
      by (cases "handle_long_word (c # cs) l (sum_list (map length l))")
    from peso_handle_long_word(1) [OF h] show ?thesis
      by (simp add: palavra_longa_def Cons True h)
  next
    case False
    then show ?thesis by (simp add: palavra_longa_def Cons)
  qed
qed

lemma peso_uma_linha:
  assumes "chunks \<noteq> []"
  shows "peso (snd (uma_linha primeira chunks)) < peso chunks"
proof -
  obtain c cs where chunks: "chunks = c # cs"
    using assms by (cases chunks) auto
  define chunks1 where "chunks1 = tirar_inicial primeira chunks"
  obtain cur_line chunks2 where e: "encher 0 chunks1 = (cur_line, chunks2)"
    by (cases "encher 0 chunks1")
  have snd_eq: "snd (uma_linha primeira chunks) = snd (palavra_longa (cur_line, chunks2))"
    unfolding uma_linha_def chunks1_def [symmetric] e by (simp split: prod.splits)
  have p1: "peso chunks1 \<le> peso chunks"
    by (simp add: chunks1_def tirar_inicial_def chunks peso_def)
  have p2: "peso chunks2 \<le> peso chunks1"
    using peso_encher [OF e] by simp
  have p3: "peso (snd (palavra_longa (cur_line, chunks2))) \<le> peso chunks2"
    by (rule peso_palavra_longa)
  have "peso (snd (palavra_longa (cur_line, chunks2))) < peso chunks"
  proof (cases "chunks1 = chunks")
    case False
    then have "chunks1 = cs"
      by (simp add: chunks1_def tirar_inicial_def chunks split: if_splits)
    then have "peso chunks1 < peso chunks" by (simp add: chunks peso_def)
    with p2 p3 show ?thesis by simp
  next
    case same: True
    show ?thesis
    proof (cases "cur_line = []")
      case False
      with peso_encher [OF e] have "peso chunks2 < peso chunks1" by simp
      with p1 p3 show ?thesis by simp
    next
      case True
      with peso_encher [OF e] have c2: "chunks2 = c # cs" by (simp add: same chunks)
      from e have "encher 0 (c # cs) = ([], c # cs)" by (simp add: same chunks True c2)
      from encher_vazio [OF this] have long: "largura < length c" by simp
      obtain l' r where h: "handle_long_word (c # cs) [] 0 = (l', r)"
        by (cases "handle_long_word (c # cs) [] 0")
      from peso_handle_long_word(2) [OF h] long have "peso r < peso (c # cs)" by simp
      then show ?thesis by (simp add: palavra_longa_def c2 long h chunks True)
    qed
  qed
  with snd_eq show ?thesis by simp
qed

function wrap_chunks :: "string list \<Rightarrow> string list \<Rightarrow> string list" where
  "wrap_chunks lines chunks =
     (if chunks = [] then lines
      else let (cur_line, resto) = uma_linha (lines = []) chunks
           in wrap_chunks (if cur_line \<noteq> [] then lines @ [concat cur_line] else lines) resto)"
  by pat_completeness auto
termination
proof (relation "measure (\<lambda>(lines, chunks). peso chunks)")
  show "wf (measure (\<lambda>(lines, chunks). peso chunks))" by simp
next
  fix lines chunks :: "string list" and x :: "string list \<times> string list" and cur_line resto
  assume "chunks \<noteq> []" "x = uma_linha (lines = []) chunks" "(cur_line, resto) = x"
  with peso_uma_linha [of chunks "lines = []"]
  show "((if cur_line \<noteq> [] then lines @ [concat cur_line] else lines, resto), (lines, chunks))
        \<in> measure (\<lambda>(lines, chunks). peso chunks)"
    by (cases "uma_linha (lines = []) chunks") auto
qed

declare wrap_chunks.simps [simp del]

definition fill :: "string \<Rightarrow> string" where
  "fill text = join [CHR 0x0A] (wrap_chunks [] (split_chunks [] (munge_whitespace text)))"

definition wrap :: "string \<Rightarrow> string" where
  "wrap text = fill text"

subsection \<open>Dictionaries\<close>

type_synonym dict = "(string \<times> int) list"

text \<open>\<open>d.get(k, default)\<close> and \<open>d[k] = v\<close>: an existing key keeps its place, a new key
  goes to the end.\<close>

definition dict_get :: "dict \<Rightarrow> string \<Rightarrow> int \<Rightarrow> int" where
  "dict_get d k dflt = (case map_of d k of None \<Rightarrow> dflt | Some v \<Rightarrow> v)"

fun dict_set :: "dict \<Rightarrow> string \<Rightarrow> int \<Rightarrow> dict" where
  "dict_set [] k v = [(k, v)]"
| "dict_set ((k', v') # d) k v = (if k' = k then (k, v) # d else (k', v') # dict_set d k v)"

abbreviation chaves :: "dict \<Rightarrow> string list" where
  "chaves d \<equiv> map fst d"

subsection \<open>Choices and the character\<close>

record Escolha =
  nome :: string
  descricao :: string
  atributos :: dict

record Personagem =
  nome :: string
  mundo :: Escolha
  origem :: Escolha
  poder :: Escolha
  legado :: Escolha
  atributos :: dict
  gloria :: int
  cicatrizes :: int

text \<open>The dataclass constructor with its defaults: the four attributes at 0, no glory and no
  scars.\<close>

definition Personagem_init :: "string \<Rightarrow> Escolha \<Rightarrow> Escolha \<Rightarrow> Escolha \<Rightarrow> Escolha \<Rightarrow> Personagem" where
  "Personagem_init n m ori pod leg =
     \<lparr>Personagem.nome = n, mundo = m, origem = ori, poder = pod, legado = leg,
      atributos = [(''vigor'', 0), (''mana'', 0), (''sorte'', 0), (''carisma'', 0)],
      gloria = 0, cicatrizes = 0\<rparr>"

text \<open>\<open>aplicar_escolhas\<close>: the inner loop over the items of one choice, the outer loop over
  the four choices.\<close>

fun aplicar_itens :: "(string \<times> int) list \<Rightarrow> dict \<Rightarrow> dict" where
  "aplicar_itens [] d = d"
| "aplicar_itens ((chave, valor) # itens) d = aplicar_itens itens (dict_set d chave (dict_get d chave 0 + valor))"

fun aplicar_lista :: "Escolha list \<Rightarrow> dict \<Rightarrow> dict" where
  "aplicar_lista [] d = d"
| "aplicar_lista (escolha # es) d = aplicar_lista es (aplicar_itens (Escolha.atributos escolha) d)"

definition aplicar_escolhas :: "Personagem \<Rightarrow> Personagem" where
  "aplicar_escolhas p =
     p\<lparr>atributos := aplicar_lista [mundo p, origem p, poder p, legado p] (atributos p)\<rparr>"

subsection \<open>The console and the prompts\<close>

text \<open>
  \<open>entrada\<close> holds the lines that standard input still has, \<open>saida\<close> what the prompts
  have written: the prompt texts and the corrective messages. The banners, menus and story
  text that the program prints in between carry no state and are not recorded (the menu
  lines of \<open>Escolha.apresentar\<close> hold the one character of the program above code point
  255, a long dash).
\<close>

record console =
  entrada :: "string list"
  saida :: "string list"

datatype erro = EOFError | IndexError

text \<open>An error that leaves a function, and the console as the error finds it.\<close>

type_synonym falha = "erro \<times> console"

definition print :: "string \<Rightarrow> console \<Rightarrow> console" where
  "print s c = c\<lparr>saida := saida c @ [s @ [CHR 0x0A]]\<rparr>"

text \<open>\<open>input(prompt)\<close>: writes the prompt and reads a line; at the end of input it raises
  \<open>EOFError\<close>, the prompt written.\<close>

definition input_py :: "string \<Rightarrow> console \<Rightarrow> falha + string \<times> console" where
  "input_py prompt c =
     (case entrada c of
        [] \<Rightarrow> Inl (EOFError, c\<lparr>saida := saida c @ [prompt]\<rparr>)
      | linha # resto \<Rightarrow> Inr (linha, c\<lparr>entrada := resto, saida := saida c @ [prompt]\<rparr>))"

text \<open>
  \<open>int(s)\<close> for a string, \<open>None\<close> where Python raises \<open>ValueError\<close>: whitespace around
  (tab to carriage return, space, and the Latin-1 characters 133 and 160), one optional sign,
  then decimal digits, where single underscores may stand between digits. As of Python 3.11
  a literal of more than 4300 digits is refused as well.
\<close>

definition int_ws :: "char \<Rightarrow> bool" where
  "int_ws c = (let n = cp c in (9 \<le> n \<and> n \<le> 13) \<or> n = 32 \<or> n = 133 \<or> n = 160)"

definition digito :: "char \<Rightarrow> bool" where
  "digito c = (48 \<le> cp c \<and> cp c \<le> 57)"

fun sublinhados_ok :: "string \<Rightarrow> bool" where
  "sublinhados_ok [] = True"
| "sublinhados_ok [c] = (c \<noteq> CHR ''_'')"
| "sublinhados_ok (c # d # r) = (\<not> (c = CHR ''_'' \<and> d = CHR ''_'') \<and> sublinhados_ok (d # r))"

definition valor_digitos :: "string \<Rightarrow> int" where
  "valor_digitos ds = foldl (\<lambda>a c. 10 * a + (int (cp c) - 48)) 0 ds"

definition py_int :: "string \<Rightarrow> int option" where
  "py_int s =
     (let t = dropWhile int_ws s;
          (neg, t1) = (case t of [] \<Rightarrow> (False, t)
                       | c # r \<Rightarrow> if c = CHR ''+'' then (False, r)
                                 else if c = CHR ''-'' then (True, r) else (False, t));
          corpo = takeWhile (\<lambda>c. digito c \<or> c = CHR ''_'') t1;
          fim = dropWhile (\<lambda>c. digito c \<or> c = CHR ''_'') t1;
          ds = filter digito corpo
      in if corpo \<noteq> [] \<and> hd corpo \<noteq> CHR ''_'' \<and> sublinhados_ok corpo \<and> list_all int_ws fim \<and>
            length ds \<le> 4300
         then Some (if neg then - valor_digitos ds else valor_digitos ds)
         else None)"

definition pergunta_indice :: string where
  "pergunta_indice = [CHR 0x0A] @ ''Escolha uma op'' @ [CHR 0xE7] @ [CHR 0xE3] @ ''o: ''"

definition aviso_numero :: string where
  "aviso_numero = ''Digite o n'' @ [CHR 0xFA] @ ''mero da op'' @ [CHR 0xE7] @ [CHR 0xE3] @ ''o desejada.''"

definition aviso_invalida :: string where
  "aviso_invalida = ''Op'' @ [CHR 0xE7] @ [CHR 0xE3] @ ''o inv'' @ [CHR 0xE1] @ ''lida, tente novamente.''"

lemma entrada_print [simp]: "entrada (print s c) = entrada c"
  by (simp add: print_def)

lemma input_py_menor: "input_py prompt c = Inr (linha, c1) \<Longrightarrow> length (entrada c1) < length (entrada c)"
  by (auto simp: input_py_def split: list.splits)

text \<open>\<open>solicitar_indice\<close>: the loop reads a line at each round; it returns the index, from 0,
  at the first line that \<open>int\<close> accepts and that lies in range.\<close>

function solicitar_indice :: "int \<Rightarrow> console \<Rightarrow> falha + int \<times> console" where
  "solicitar_indice n_opcoes c =
     (case input_py pergunta_indice c of
        Inl e \<Rightarrow> Inl e
      | Inr (linha, c1) \<Rightarrow>
          (case py_int linha of
             None \<Rightarrow> solicitar_indice n_opcoes (print aviso_numero c1)
           | Some n \<Rightarrow>
               if 0 \<le> n - 1 \<and> n - 1 < n_opcoes then Inr (n - 1, c1)
               else solicitar_indice n_opcoes (print aviso_invalida c1)))"
  by pat_completeness auto
termination
  by (relation "measure (\<lambda>(n_opcoes, c). length (entrada c))") (auto dest: input_py_menor)

declare solicitar_indice.simps [simp del]

definition pergunta_nome :: string where
  "pergunta_nome = ''Como voc'' @ [CHR 0xEA] @ '' se chama no mundo original? ''"

definition aviso_nome :: string where
  "aviso_nome = ''Um her'' @ [CHR 0xF3] @ ''i precisa de um nome, nem que seja emprestado!''"

function solicitar_nome :: "console \<Rightarrow> falha + string \<times> console" where
  "solicitar_nome c =
     (case input_py pergunta_nome c of
        Inl e \<Rightarrow> Inl e
      | Inr (linha, c1) \<Rightarrow>
          if strip linha \<noteq> [] then Inr (strip linha, c1)
          else solicitar_nome (print aviso_nome c1))"
  by pat_completeness auto
termination
  by (relation "measure (\<lambda>c. length (entrada c))") (auto dest: input_py_menor)

declare solicitar_nome.simps [simp del]

text \<open>\<open>xs[i]\<close> on a list: a negative index counts from the end, an index out of range raises
  \<open>IndexError\<close>.\<close>

definition py_index :: "'a list \<Rightarrow> int \<Rightarrow> erro + 'a" where
  "py_index xs i =
     (let n = int (length xs)
      in if 0 \<le> i \<and> i < n then Inr (xs ! nat i)
         else if - n \<le> i \<and> i < 0 then Inr (xs ! nat (n + i))
         else Inl IndexError)"

text \<open>\<open>apresentar_opcoes\<close>: after the menu (not recorded), the index prompt chooses the
  option.\<close>

definition apresentar_opcoes :: "string \<Rightarrow> Escolha list \<Rightarrow> console \<Rightarrow> falha + Escolha \<times> console" where
  "apresentar_opcoes titulo opcoes c =
     (case solicitar_indice (int (length opcoes)) c of
        Inl e \<Rightarrow> Inl e
      | Inr (indice, c1) \<Rightarrow>
          (case py_index opcoes indice of Inl e \<Rightarrow> Inl (e, c1) | Inr opcao \<Rightarrow> Inr (opcao, c1)))"

subsection \<open>Events\<close>

record Evento =
  titulo :: string
  descricao :: string
  escolhas :: "(string \<times> string \<times> string) list"

text \<open>\<open>random.randint(a, b)\<close>: the next raw draw of the generator, brought into \<open>a..b\<close>.\<close>

type_synonym gerador = "nat stream"

definition randint :: "int \<Rightarrow> int \<Rightarrow> gerador \<Rightarrow> int \<times> gerador" where
  "randint a b g = (a + int (shd g mod nat (b - a + 1)), stl g)"

text \<open>\<open>Evento._narrativa\<close>: the text for the outcome tag, the character (whose mana the
  mystic outcome raises) and the generator after the draw.\<close>

definition narrativa :: "string \<Rightarrow> Personagem \<Rightarrow> gerador \<Rightarrow> string \<times> Personagem \<times> gerador" where
  "narrativa resultado personagem g =
     (let sorte = dict_get (atributos personagem) ''sorte'' 0;
          mana = dict_get (atributos personagem) ''mana'' 0;
          carisma = dict_get (atributos personagem) ''carisma'' 0;
          vigor = dict_get (atributos personagem) ''vigor'' 0
      in if resultado = ''gloria'' then
           (let (r, g1) = randint 0 2 g;
                bonus = r + max sorte carisma div 2
            in (''O mundo sorri para voc'' @ [CHR 0xEA] @
                ''. Seus aliados celebram, e o deus Gem concede uma b'' @ [CHR 0xEA] @ ''n'' @
                [CHR 0xE7] @ [CHR 0xE3] @ ''o adicional de '' @ str_int bonus @
                '' pontos de inspira'' @ [CHR 0xE7] @ [CHR 0xE3] @ ''o.'',
                personagem, g1))
         else if resultado = ''cicatriz'' then
           (let (r, g1) = randint 0 2 g;
                penalidade = r - min vigor sorte div 3
            in (''O desafio cobra seu pre'' @ [CHR 0xE7] @ ''o; uma nova cicatriz surge, mas tamb'' @
                [CHR 0xE9] @ ''m deixa li'' @ [CHR 0xE7] @ [CHR 0xF5] @ ''es que refor'' @ [CHR 0xE7] @
                ''am sua determina'' @ [CHR 0xE7] @ [CHR 0xE3] @ ''o ('' @ fmt_sinal penalidade @ '').'',
                personagem, g1))
         else if resultado = ''mistico'' then
           (let (r, g1) = randint 1 6 g;
                retorno = r + mana
            in (''Seu poder m'' @ [CHR 0xED] @
                ''stico pulsa intensamente, revelando segredos antigos. Voc'' @ [CHR 0xEA] @
                '' acumula '' @ str_int retorno @ '' ecos arcanos e aperfei'' @ [CHR 0xE7] @
                ''oa sua mana.'',
                personagem\<lparr>atributos :=
                  dict_set (atributos personagem) ''mana'' (dict_get (atributos personagem) ''mana'' 0 + 1)\<rparr>,
                g1))
         else (''As engrenagens do destino giram silenciosamente dessa vez.'', personagem, g))"

text \<open>\<open>Evento.resolver\<close>: the player picks an option; the result is its outcome tag, the
  wrapped text, and the states after.\<close>

definition resolver ::
  "Evento \<Rightarrow> Personagem \<Rightarrow> gerador \<Rightarrow> console \<Rightarrow> falha + string \<times> string \<times> Personagem \<times> gerador \<times> console" where
  "resolver evento personagem g c =
     (case solicitar_indice (int (length (escolhas evento))) c of
        Inl e \<Rightarrow> Inl e
      | Inr (indice, c1) \<Rightarrow>
          (case py_index (escolhas evento) indice of
             Inl e \<Rightarrow> Inl (e, c1)
           | Inr (identificador, texto, resultado) \<Rightarrow>
               (let (narr, p1, g1) = narrativa resultado personagem g
                in Inr (resultado,
                        wrap (''Voc'' @ [CHR 0xEA] @ '' opta por '' @ lower texto @ ''. '' @ narr),
                        p1, g1, c1))))"

text \<open>\<open>Personagem.resolver_evento\<close>: resolves the event and counts a glory or a scar.\<close>

definition resolver_evento ::
  "Personagem \<Rightarrow> Evento \<Rightarrow> gerador \<Rightarrow> console \<Rightarrow> falha + string \<times> Personagem \<times> gerador \<times> console" where
  "resolver_evento personagem evento g c =
     (case resolver evento personagem g c of
        Inl e \<Rightarrow> Inl e
      | Inr (resultado, descr, p1, g1, c1) \<Rightarrow>
          Inr (descr,
               (if resultado = ''gloria'' then p1\<lparr>gloria := gloria p1 + 1\<rparr>
                else if resultado = ''cicatriz'' then p1\<lparr>cicatrizes := cicatrizes p1 + 1\<rparr>
                else p1),
               g1, c1))"

subsection \<open>The epilogue\<close>

definition destino_lenda :: string where
  "destino_lenda = ''Voc'' @ [CHR 0xEA] @ '' se torna uma lenda viva, venerado em can'' @ [CHR 0xE7] @
     [CHR 0xF5] @ ''es e invocado como patrono de her'' @ [CHR 0xF3] @ ''is por gera'' @ [CHR 0xE7] @
     [CHR 0xF5] @ ''es.''"

definition destino_memoria :: string where
  "destino_memoria = ''Sua jornada foi marcada por vit'' @ [CHR 0xF3] @
     ''rias e amizades sinceras; seu nome permanece em mem'' @ [CHR 0xF3] @
     ''ria nas guildas locais.''"

definition destino_equilibrio :: string where
  "destino_equilibrio = ''Voc'' @ [CHR 0xEA] @ '' encontra um equil'' @ [CHR 0xED] @
     ''brio delicado entre desafios e gl'' @ [CHR 0xF3] @
     ''rias, levando uma vida tranquila mas cheia de hist'' @ [CHR 0xF3] @ ''rias para contar.''"

definition destino_resistencia :: string where
  "destino_resistencia = ''As cicatrizes acumuladas cobram seu pre'' @ [CHR 0xE7] @
     ''o. Ainda assim, voc'' @ [CHR 0xEA] @ '' segue firme, provando que coragem tamb'' @ [CHR 0xE9] @
     ''m '' @ [CHR 0xE9] @ '' resistir.''"

text \<open>The parts of \<open>Personagem.epilogo\<close>: the \<open>if\<close> chain that chooses \<open>destino\<close>, the
  listing \<open>resumo_atributos\<close>, the text handed to \<open>wrap\<close>, and the result.\<close>

definition destino :: "Personagem \<Rightarrow> string" where
  "destino p =
     (let diferenca = gloria p - cicatrizes p
      in if diferenca \<ge> 3 then destino_lenda
         else if diferenca \<ge> 1 then destino_memoria
         else if diferenca = 0 then destino_equilibrio
         else destino_resistencia)"

definition entrada_resumo :: "string \<times> int \<Rightarrow> string" where
  "entrada_resumo kv = capitalize (fst kv) @ '': '' @ str_int (snd kv)"

definition resumo_atributos :: "Personagem \<Rightarrow> string" where
  "resumo_atributos p = join '', '' (map entrada_resumo (atributos p))"

definition epilogo_texto :: "Personagem \<Rightarrow> string" where
  "epilogo_texto p =
     ''No fim da aventura, '' @ Personagem.nome p @ '' registra '' @ str_int (gloria p) @
     '' feitos gloriosos e '' @ str_int (cicatrizes p) @ '' cicatrizes memor'' @ [CHR 0xE1] @
     ''veis. '' @ destino p @ '' A s'' @ [CHR 0xED] @ ''ntese do seu potencial: '' @
     resumo_atributos p @ ''.''"

definition epilogo :: "Personagem \<Rightarrow> string" where
  "epilogo p = wrap (epilogo_texto p)"

subsection \<open>The catalogue and a full run\<close>

definition MUNDOS :: "Escolha list" where
  "MUNDOS =
     [\<lparr>Escolha.nome = ''Reino de Aerilon'',
       Escolha.descricao = ''Um mundo onde cidades flutuam e a magia alimenta as rotas comerciais.'',
       Escolha.atributos = [(''mana'', 2), (''carisma'', 1)]\<rparr>,
      \<lparr>Escolha.nome = ''Imp'' @ [CHR 0xE9] @ ''rio Ferromar'',
       Escolha.descricao = ''Terras forjadas pelo a'' @ [CHR 0xE7] @
          ''o e pelo vapor, onde a disciplina fala mais alto.'',
       Escolha.atributos = [(''vigor'', 2)]\<rparr>,
      \<lparr>Escolha.nome = ''Arquip'' @ [CHR 0xE9] @ ''lago de L'' @ [CHR 0xFA] @ ''men'',
       Escolha.descricao = ''Ilhas misteriosas protegidas por esp'' @ [CHR 0xED] @ ''ritos ancestrais.'',
       Escolha.atributos = [(''sorte'', 2), (''mana'', 1)]\<rparr>]"

definition ORIGENS :: "Escolha list" where
  "ORIGENS =
     [\<lparr>Escolha.nome = ''Filho de um Art'' @ [CHR 0xED] @ ''fice'',
       Escolha.descricao = ''Voc'' @ [CHR 0xEA] @ '' renasce em uma fam'' @ [CHR 0xED] @
          ''lia que domina a tecnologia arcana.'',
       Escolha.atributos = [(''mana'', 1), (''vigor'', 1)]\<rparr>,
      \<lparr>Escolha.nome = ''Herdeiro de Guilda'',
       Escolha.descricao = ''Uma guilda influente o adota como protegido especial do deus Gem.'',
       Escolha.atributos = [(''carisma'', 2)]\<rparr>,
      \<lparr>Escolha.nome = ''Ca'' @ [CHR 0xE7] @ ''ador Errante'',
       Escolha.descricao = ''Voc'' @ [CHR 0xEA] @ '' desperta em uma caravana que atravessa territ'' @ [CHR 0xF3] @
          ''rios selvagens.'',
       Escolha.atributos = [(''vigor'', 1), (''sorte'', 1)]\<rparr>]"

definition PODERES :: "Escolha list" where
  "PODERES =
     [\<lparr>Escolha.nome = ''Forja Estelar'',
       Escolha.descricao = ''Capaz de invocar armas moldadas com energia celeste.'',
       Escolha.atributos = [(''vigor'', 1), (''mana'', 2)]\<rparr>,
      \<lparr>Escolha.nome = ''Eco do Tempo'',
       Escolha.descricao = ''Permite antecipar possibilidades futuras e evit'' @ [CHR 0xE1] @ ''-las ou provoc'' @
          [CHR 0xE1] @ ''-las.'',
       Escolha.atributos = [(''sorte'', 2)]\<rparr>,
      \<lparr>Escolha.nome = ''Lira do Cora'' @ [CHR 0xE7] @ [CHR 0xE3] @ ''o'',
       Escolha.descricao = ''M'' @ [CHR 0xFA] @ ''sica encantada que inspira aliados e confunde inimigos.'',
       Escolha.atributos = [(''carisma'', 2), (''mana'', 1)]\<rparr>]"

definition LEGADOS :: "Escolha list" where
  "LEGADOS =
     [\<lparr>Escolha.nome = ''Guardi'' @ [CHR 0xE3] @ ''o Celeste'',
       Escolha.descricao = ''Voc'' @ [CHR 0xEA] @ '' carrega uma promessa de proteger os indefesos em nome de Gem.'',
       Escolha.atributos = [(''carisma'', 1), (''vigor'', 1)]\<rparr>,
      \<lparr>Escolha.nome = ''S'' @ [CHR 0xE1] @ ''bio Errante'',
       Escolha.descricao = ''O desejo insaci'' @ [CHR 0xE1] @ ''vel por conhecimento o guia por bibliotecas vivas.'',
       Escolha.atributos = [(''mana'', 1), (''sorte'', 1)]\<rparr>,
      \<lparr>Escolha.nome = ''Desafiante do Destino'',
       Escolha.descricao = ''Voc'' @ [CHR 0xEA] @ '' promete confrontar as engrenagens do mundo e venc'' @ [CHR 0xEA] @
          ''-las.'',
       Escolha.atributos = [(''vigor'', 1), (''sorte'', 1)]\<rparr>]"

definition EVENTOS :: "Evento list" where
  "EVENTOS =
     [\<lparr>Evento.titulo = ''Festival da Reencarna'' @ [CHR 0xE7] @ [CHR 0xE3] @ ''o'',
       Evento.descricao = ''O povo celebra sua chegada e o deus Gem oferece um desafio surpresa.'',
       Evento.escolhas =
         [(''gloria'', ''Exibir sua Forja Estelar em um duelo amistoso'', ''gloria''),
          (''caridade'', ''Distribuir b'' @ [CHR 0xEA] @ ''n'' @ [CHR 0xE7] @ [CHR 0xE3] @
             ''os nas feiras com a Lira do Cora'' @ [CHR 0xE7] @ [CHR 0xE3] @ ''o'', ''mistico''),
          (''humildade'', ''Ajudar discretamente nas barracas comunit'' @ [CHR 0xE1] @
             ''rias'', ''cicatriz'')]\<rparr>,
      \<lparr>Evento.titulo = ''Biblioteca Serpentina'',
       Evento.descricao = ''Um labirinto de pergaminhos vivos promete segredos antigos.'',
       Evento.escolhas =
         [(''estudo'', ''Mergulhar nos manuscritos brilhantes'', ''mistico''),
          (''atalho'', ''Seguir um esp'' @ [CHR 0xED] @ ''rito guia at'' @ [CHR 0xE9] @
             '' uma sala proibida'', ''gloria''),
          (''retirada'', ''Recuar ao sentir uma presen'' @ [CHR 0xE7] @
             ''a hostil'', ''cicatriz'')]\<rparr>,
      \<lparr>Evento.titulo = ''Prova'' @ [CHR 0xE7] @ [CHR 0xE3] @ ''o do Crep'' @
         [CHR 0xFA] @ ''sculo'',
       Evento.descricao = ''Um tit'' @ [CHR 0xE3] @ '' elemental desperta amea'' @ [CHR 0xE7] @
          ''ando o povoado que o acolheu.'',
       Evento.escolhas =
         [(''combate'', ''Atacar o tit'' @ [CHR 0xE3] @ '' de frente com coragem'', ''gloria''),
          (''estrategia'', ''Coordenar uma retirada ordenada'', ''cicatriz''),
          (''selo'', ''Canalizar mana para selar a criatura'', ''mistico'')]\<rparr>]"

text \<open>\<open>preparar_personagem\<close>: the name, the four choices, then the character with the
  choices applied.\<close>

definition preparar_personagem :: "console \<Rightarrow> falha + Personagem \<times> console" where
  "preparar_personagem c =
     (case solicitar_nome c of Inl e \<Rightarrow> Inl e | Inr (n, c1) \<Rightarrow>
      (case apresentar_opcoes ''Escolha seu novo mundo'' MUNDOS c1 of Inl e \<Rightarrow> Inl e | Inr (m, c2) \<Rightarrow>
      (case apresentar_opcoes (''Qual ser'' @ [CHR 0xE1] @ '' sua nova origem?'') ORIGENS c2 of
         Inl e \<Rightarrow> Inl e | Inr (ori, c3) \<Rightarrow>
      (case apresentar_opcoes (''Qual b'' @ [CHR 0xEA] @ ''n'' @ [CHR 0xE7] @ [CHR 0xE3] @ ''o deseja receber?'')
              PODERES c3 of
         Inl e \<Rightarrow> Inl e | Inr (pod, c4) \<Rightarrow>
      (case apresentar_opcoes ''Qual legado pretende construir?'' LEGADOS c4 of
         Inl e \<Rightarrow> Inl e | Inr (leg, c5) \<Rightarrow>
      Inr (aplicar_escolhas (Personagem_init n m ori pod leg), c5))))))"

text \<open>\<open>simular_aventura\<close>: the loop over the events; \<open>g\<close> is the generator as
  \<open>random.seed()\<close> leaves it. The result is the character at the end, of which the epilogue
  is printed.\<close>

fun eventos_loop ::
  "Evento list \<Rightarrow> Personagem \<Rightarrow> gerador \<Rightarrow> console \<Rightarrow> falha + Personagem \<times> gerador \<times> console" where
  "eventos_loop [] p g c = Inr (p, g, c)"
| "eventos_loop (evento # es) p g c =
     (case resolver_evento p evento g c of
        Inl e \<Rightarrow> Inl e
      | Inr (narr, p1, g1, c1) \<Rightarrow> eventos_loop es p1 g1 c1)"

definition simular_aventura :: "Personagem \<Rightarrow> gerador \<Rightarrow> console \<Rightarrow> falha + Personagem \<times> gerador \<times> console" where
  "simular_aventura personagem g c = eventos_loop EVENTOS personagem g c"

definition jogar :: "gerador \<Rightarrow> console \<Rightarrow> falha + Personagem \<times> gerador \<times> console" where
  "jogar g c =
     (case preparar_personagem c of
        Inl e \<Rightarrow> Inl e
      | Inr (personagem, c1) \<Rightarrow> simular_aventura personagem g c1)"

text \<open>A character for the examples: the second world and the first origin, power and legacy,
  with the counters set by hand.\<close>

definition exemplo :: "int \<Rightarrow> int \<Rightarrow> Personagem" where
  "exemplo gl ci =
     (aplicar_escolhas (Personagem_init ''Ana'' (MUNDOS ! 1) (ORIGENS ! 0) (PODERES ! 0) (LEGADOS ! 0)))
       \<lparr>gloria := gl, cicatrizes := ci\<rparr>"

text \<open>A line is valid for a menu of \<open>n_opcoes\<close> options when \<open>int\<close> reads it as a
  number from 1 to \<open>n_opcoes\<close>; \<open>aviso\<close> is the message that the prompt answers an
  invalid line with.\<close>

definition valida :: "int \<Rightarrow> string \<Rightarrow> bool" where
  "valida n_opcoes linha = (case py_int linha of None \<Rightarrow> False | Some n \<Rightarrow> 1 \<le> n \<and> n \<le> n_opcoes)"

definition aviso :: "string \<Rightarrow> string" where
  "aviso linha = (case py_int linha of None \<Rightarrow> aviso_numero | Some n \<Rightarrow> aviso_invalida)"

text \<open>What the items of one choice add up to for the key \<open>k\<close>.\<close>

definition soma_chave :: "(string \<times> int) list \<Rightarrow> string \<Rightarrow> int" where
  "soma_chave itens k = sum_list (map snd (filter (\<lambda>kv. fst kv = k) itens))"

text \<open>A console that has the given lines to read and has written nothing yet.\<close>

definition console_de :: "string list \<Rightarrow> console" where
  "console_de linhas = \<lparr>entrada = linhas, saida = []\<rparr>"

text \<open>The invariant of C8: no attribute value and neither counter is negative.\<close>

definition nao_negativo :: "Personagem \<Rightarrow> bool" where
  "nao_negativo p = (list_all (\<lambda>kv. 0 \<le> snd kv) (atributos p) \<and> 0 \<le> gloria p \<and> 0 \<le> cicatrizes p)"

text \<open>A full run for the examples: the lines typed, the character after creation and the
  character at the end (three glories).\<close>

definition entrada_exemplo :: "string list" where
  "entrada_exemplo = [''Pedro Henrique'', ''2'', ''1'', ''1'', ''1'', ''1'', ''2'', ''1'']"

definition inicial_exemplo :: Personagem where
  "inicial_exemplo =
     \<lparr>Personagem.nome = ''Pedro Henrique'',
      mundo = MUNDOS ! 1, origem = ORIGENS ! 0, poder = PODERES ! 0, legado = LEGADOS ! 0,
      atributos = [(''vigor'', 5), (''mana'', 3), (''sorte'', 0), (''carisma'', 1)],
      gloria = 0, cicatrizes = 0\<rparr>"

definition final_exemplo :: Personagem where
  "final_exemplo =
     \<lparr>Personagem.nome = ''Pedro Henrique'',
      mundo = MUNDOS ! 1, origem = ORIGENS ! 0, poder = PODERES ! 0, legado = LEGADOS ! 0,
      atributos = [(''vigor'', 5), (''mana'', 3), (''sorte'', 0), (''carisma'', 1)],
      gloria = 3, cicatrizes = 0\<rparr>"

text \<open>A text without its whitespace characters.\<close>

definition sem_espacos :: "string \<Rightarrow> string" where
  "sem_espacos s = filter (\<lambda>c. \<not> py_isspace c) s"

section \<open>Properties\<close>

subsection \<open>Dictionaries and draws\<close>

lemma map_of_dict_set: "map_of (dict_set d k v) = (map_of d)(k \<mapsto> v)"
  by (induction d) (auto simp: fun_eq_iff)

lemma dict_get_dict_set:
  "dict_get (dict_set d k v) k' dflt = (if k' = k then v else dict_get d k' dflt)"
  by (simp add: dict_get_def map_of_dict_set)

lemma randint_faixa: "a \<le> b \<Longrightarrow> a \<le> fst (randint a b g) \<and> fst (randint a b g) \<le> b"
proof -
  assume ab: "a \<le> b"
  then have pos: "0 < nat (b - a + 1)" by simp
  have "shd g mod nat (b - a + 1) < nat (b - a + 1)"
    using pos by (rule mod_less_divisor)
  then have "int (shd g mod nat (b - a + 1)) < b - a + 1"
    using ab by linarith
  then show ?thesis by (simp add: randint_def)
qed

subsection \<open>The prompt and the events, unfolded\<close>

lemma solicitar_indice_valida:
  assumes "entrada c = linha # resto" and "py_int linha = Some n" and "1 \<le> n" and "n \<le> tot"
  shows "solicitar_indice tot c = Inr (n - 1, c\<lparr>entrada := resto, saida := saida c @ [pergunta_indice]\<rparr>)"
  using assms by (subst solicitar_indice.simps) (simp add: input_py_def)

lemma py_int_um_digito:
  "digito d \<Longrightarrow> py_int [d] = Some (int (cp d) - 48)"
  by (auto simp: py_int_def digito_def int_ws_def valor_digitos_def Let_def cp_def)

lemma narrativa_mistico:
  "narrativa ''mistico'' p g =
     (''Seu poder m'' @ [CHR 0xED] @
      ''stico pulsa intensamente, revelando segredos antigos. Voc'' @ [CHR 0xEA] @
      '' acumula '' @ str_int (fst (randint 1 6 g) + dict_get (atributos p) ''mana'' 0) @
      '' ecos arcanos e aperfei'' @ [CHR 0xE7] @ ''oa sua mana.'',
      p\<lparr>atributos := dict_set (atributos p) ''mana'' (dict_get (atributos p) ''mana'' 0 + 1)\<rparr>,
      snd (randint 1 6 g))"
  by (simp add: narrativa_def Let_def split: prod.splits)

lemma narrativa_gloria:
  "narrativa ''gloria'' p g =
     (''O mundo sorri para voc'' @ [CHR 0xEA] @
      ''. Seus aliados celebram, e o deus Gem concede uma b'' @ [CHR 0xEA] @ ''n'' @
      [CHR 0xE7] @ [CHR 0xE3] @ ''o adicional de '' @
      str_int (fst (randint 0 2 g) +
               max (dict_get (atributos p) ''sorte'' 0) (dict_get (atributos p) ''carisma'' 0) div 2) @
      '' pontos de inspira'' @ [CHR 0xE7] @ [CHR 0xE3] @ ''o.'',
      p, snd (randint 0 2 g))"
  by (simp add: narrativa_def Let_def split: prod.splits)

lemma narrativa_cicatriz:
  "narrativa ''cicatriz'' p g =
     (''O desafio cobra seu pre'' @ [CHR 0xE7] @ ''o; uma nova cicatriz surge, mas tamb'' @
      [CHR 0xE9] @ ''m deixa li'' @ [CHR 0xE7] @ [CHR 0xF5] @ ''es que refor'' @ [CHR 0xE7] @
      ''am sua determina'' @ [CHR 0xE7] @ [CHR 0xE3] @ ''o ('' @
      fmt_sinal (fst (randint 0 2 g) -
                 min (dict_get (atributos p) ''vigor'' 0) (dict_get (atributos p) ''sorte'' 0) div 3) @
      '').'',
      p, snd (randint 0 2 g))"
  by (simp add: narrativa_def Let_def split: prod.splits)

lemma resolver_evento_escolhido:
  assumes "solicitar_indice (int (length (escolhas ev))) c = Inr (i, c1)"
    and "py_index (escolhas ev) i = Inr (ident, texto, resultado)"
    and "narrativa resultado p g = (narr, p1, g1)"
  shows "resolver_evento p ev g c =
     Inr (wrap (''Voc'' @ [CHR 0xEA] @ '' opta por '' @ lower texto @ ''. '' @ narr),
          (if resultado = ''gloria'' then p1\<lparr>gloria := gloria p1 + 1\<rparr>
           else if resultado = ''cicatriz'' then p1\<lparr>cicatrizes := cicatrizes p1 + 1\<rparr>
           else p1),
          g1, c1)"
  using assms by (simp add: resolver_evento_def resolver_def)

lemma exemplo_atributos:
  "atributos (exemplo gl ci) = [(''vigor'', 5), (''mana'', 3), (''sorte'', 0), (''carisma'', 1)]"
  by (simp add: exemplo_def aplicar_escolhas_def Personagem_init_def MUNDOS_def ORIGENS_def
      PODERES_def LEGADOS_def dict_get_def)

lemma primeiro_evento_1:
  "solicitar_indice (int (length (escolhas (EVENTOS ! 0)))) (console_de [''1'']) =
     Inr (0, \<lparr>entrada = [], saida = [pergunta_indice]\<rparr>)"
  "\<exists>texto. py_index (escolhas (EVENTOS ! 0)) 0 = Inr (''gloria'', texto, ''gloria'')"
proof -
  have p: "py_int ''1'' = Some 1"
    using py_int_um_digito [of "CHR ''1''"] by (simp add: digito_def cp_def)
  show "solicitar_indice (int (length (escolhas (EVENTOS ! 0)))) (console_de [''1'']) =
     Inr (0, \<lparr>entrada = [], saida = [pergunta_indice]\<rparr>)"
    using solicitar_indice_valida [of "console_de [''1'']" "''1''" "[]" 1 3] p
    by (simp add: console_de_def EVENTOS_def)
  show "\<exists>texto. py_index (escolhas (EVENTOS ! 0)) 0 = Inr (''gloria'', texto, ''gloria'')"
    by (simp add: EVENTOS_def py_index_def)
qed

lemma primeiro_evento_2:
  "solicitar_indice (int (length (escolhas (EVENTOS ! 0)))) (console_de [''2'']) =
     Inr (1, \<lparr>entrada = [], saida = [pergunta_indice]\<rparr>)"
  "\<exists>texto. py_index (escolhas (EVENTOS ! 0)) 1 = Inr (''caridade'', texto, ''mistico'')"
proof -
  have p: "py_int ''2'' = Some 2"
    using py_int_um_digito [of "CHR ''2''"] by (simp add: digito_def cp_def)
  show "solicitar_indice (int (length (escolhas (EVENTOS ! 0)))) (console_de [''2'']) =
     Inr (1, \<lparr>entrada = [], saida = [pergunta_indice]\<rparr>)"
    using solicitar_indice_valida [of "console_de [''2'']" "''2''" "[]" 2 3] p
    by (simp add: console_de_def EVENTOS_def)
  show "\<exists>texto. py_index (escolhas (EVENTOS ! 0)) 1 = Inr (''caridade'', texto, ''mistico'')"
    by (simp add: EVENTOS_def py_index_def)
qed

lemma primeiro_evento_3:
  "solicitar_indice (int (length (escolhas (EVENTOS ! 0)))) (console_de [''3'']) =
     Inr (2, \<lparr>entrada = [], saida = [pergunta_indice]\<rparr>)"
  "\<exists>texto. py_index (escolhas (EVENTOS ! 0)) 2 = Inr (''humildade'', texto, ''cicatriz'')"
proof -
  have p: "py_int ''3'' = Some 3"
    using py_int_um_digito [of "CHR ''3''"] by (simp add: digito_def cp_def)
  show "solicitar_indice (int (length (escolhas (EVENTOS ! 0)))) (console_de [''3'']) =
     Inr (2, \<lparr>entrada = [], saida = [pergunta_indice]\<rparr>)"
    using solicitar_indice_valida [of "console_de [''3'']" "''3''" "[]" 3 3] p
    by (simp add: console_de_def EVENTOS_def)
  show "\<exists>texto. py_index (escolhas (EVENTOS ! 0)) 2 = Inr (''humildade'', texto, ''cicatriz'')"
    by (simp add: EVENTOS_def py_index_def)
qed

subsection \<open>The epilogue tier\<close>

lemma destinos_distintos:
  "distinct [destino_lenda, destino_memoria, destino_equilibrio, destino_resistencia]"
  by (simp add: destino_lenda_def destino_memoria_def destino_equilibrio_def destino_resistencia_def)

text \<open>
  C1. With \<open>difference = glory - scars\<close>, the epilogue takes the legend text when the
  difference is at least 3, the fond-memory text when it is 1 or 2, the balance text when it
  is 0 and the resilience text when it is negative; so 4 glories and 1 scar give the legend
  text and equal counters give the balance text. The four texts are different from each
  other, and the chosen one is part of the text that the epilogue wraps.
\<close>

theorem C1_epilogo_destino:
  "(3 \<le> gloria p - cicatrizes p \<longrightarrow> destino p = destino_lenda) \<and>
   (1 \<le> gloria p - cicatrizes p \<and> gloria p - cicatrizes p < 3 \<longrightarrow> destino p = destino_memoria) \<and>
   (gloria p - cicatrizes p = 0 \<longrightarrow> destino p = destino_equilibrio) \<and>
   (gloria p - cicatrizes p < 0 \<longrightarrow> destino p = destino_resistencia) \<and>
   (gloria p = 4 \<and> cicatrizes p = 1 \<longrightarrow> destino p = destino_lenda) \<and>
   (gloria p = cicatrizes p \<longrightarrow> destino p = destino_equilibrio) \<and>
   distinct [destino_lenda, destino_memoria, destino_equilibrio, destino_resistencia] \<and>
   (\<exists>antes depois. epilogo p = wrap (antes @ destino p @ depois))"
proof -
  have "\<exists>antes depois. epilogo p = wrap (antes @ destino p @ depois)"
    unfolding epilogo_def epilogo_texto_def
    by (metis append.assoc)
  then show ?thesis
    using destinos_distintos by (simp add: destino_def Let_def)
qed

theorem C1_epilogo_destino_witness:
  "gloria (exemplo 4 1) = 4 \<and> cicatrizes (exemplo 4 1) = 1 \<and> destino (exemplo 4 1) = destino_lenda \<and>
   gloria (exemplo 2 1) - cicatrizes (exemplo 2 1) = 1 \<and> destino (exemplo 2 1) = destino_memoria \<and>
   gloria (exemplo 2 2) = cicatrizes (exemplo 2 2) \<and> destino (exemplo 2 2) = destino_equilibrio \<and>
   gloria (exemplo 0 1) - cicatrizes (exemplo 0 1) < 0 \<and> destino (exemplo 0 1) = destino_resistencia"
  using C1_epilogo_destino [of "exemplo 4 1"] C1_epilogo_destino [of "exemplo 2 1"]
    C1_epilogo_destino [of "exemplo 2 2"] C1_epilogo_destino [of "exemplo 0 1"]
  by (simp add: exemplo_def)

subsection \<open>The three outcomes of an event\<close>

text \<open>
  C2. When the option that the player picks in an event carries the tag \<open>mistico\<close>, the
  event resolves, the mana of the character goes up by exactly 1 whatever the draw, every
  other attribute and both counters stay as they were, and the text reports as arcane echo
  the draw, a number from 1 to 6, plus the mana the character had.
\<close>

theorem C2_mistico:
  assumes "solicitar_indice (int (length (escolhas ev))) c = Inr (i, c1)"
    and "py_index (escolhas ev) i = Inr (ident, texto, ''mistico'')"
  shows "\<exists>descr p1 g1 eco.
     resolver_evento p ev g c = Inr (descr, p1, g1, c1) \<and>
     dict_get (atributos p1) ''mana'' 0 = dict_get (atributos p) ''mana'' 0 + 1 \<and>
     (\<forall>k. k \<noteq> ''mana'' \<longrightarrow> map_of (atributos p1) k = map_of (atributos p) k) \<and>
     gloria p1 = gloria p \<and> cicatrizes p1 = cicatrizes p \<and>
     1 \<le> eco \<and> eco \<le> 6 \<and> eco = fst (randint 1 6 g) \<and>
     descr = wrap (''Voc'' @ [CHR 0xEA] @ '' opta por '' @ lower texto @ ''. '' @
       ''Seu poder m'' @ [CHR 0xED] @
       ''stico pulsa intensamente, revelando segredos antigos. Voc'' @ [CHR 0xEA] @
       '' acumula '' @ str_int (eco + dict_get (atributos p) ''mana'' 0) @
       '' ecos arcanos e aperfei'' @ [CHR 0xE7] @ ''oa sua mana.'')"
proof -
  from randint_faixa [of 1 6 g] have r: "1 \<le> fst (randint 1 6 g)" "fst (randint 1 6 g) \<le> 6"
    by simp_all
  show ?thesis
    using resolver_evento_escolhido [OF assms narrativa_mistico] r
    by (simp add: dict_get_dict_set map_of_dict_set)
qed

theorem C2_mistico_witness:
  "\<exists>descr p1 g1.
     resolver_evento (exemplo 0 0) (EVENTOS ! 0) (sconst 4) (console_de [''2'']) =
       Inr (descr, p1, g1, \<lparr>entrada = [], saida = [pergunta_indice]\<rparr>) \<and>
     dict_get (atributos p1) ''mana'' 0 = 4 \<and> gloria p1 = 0 \<and> cicatrizes p1 = 0"
proof -
  from primeiro_evento_2(2) obtain texto
    where t: "py_index (escolhas (EVENTOS ! 0)) 1 = Inr (''caridade'', texto, ''mistico'')" ..
  from C2_mistico [OF primeiro_evento_2(1) t, of "exemplo 0 0" "sconst 4"]
  show ?thesis
    by (auto simp: exemplo_atributos dict_get_def) (auto simp: exemplo_def)
qed

text \<open>
  C3. When the picked option carries the tag \<open>gloria\<close>, the glory counter goes up by
  exactly 1, the scars and the attributes stay, and the bonus in the text is the draw, a
  number from 0 to 2, plus the larger of luck and charisma halved rounding down, where an
  attribute missing from the mapping counts as 0.
\<close>

theorem C3_gloria:
  assumes "solicitar_indice (int (length (escolhas ev))) c = Inr (i, c1)"
    and "py_index (escolhas ev) i = Inr (ident, texto, ''gloria'')"
  shows "\<exists>descr p1 g1 dado sorte carisma.
     resolver_evento p ev g c = Inr (descr, p1, g1, c1) \<and>
     gloria p1 = gloria p + 1 \<and> cicatrizes p1 = cicatrizes p \<and> atributos p1 = atributos p \<and>
     dado = fst (randint 0 2 g) \<and> 0 \<le> dado \<and> dado \<le> 2 \<and>
     sorte = (case map_of (atributos p) ''sorte'' of None \<Rightarrow> 0 | Some v \<Rightarrow> v) \<and>
     carisma = (case map_of (atributos p) ''carisma'' of None \<Rightarrow> 0 | Some v \<Rightarrow> v) \<and>
     descr = wrap (''Voc'' @ [CHR 0xEA] @ '' opta por '' @ lower texto @ ''. '' @
       ''O mundo sorri para voc'' @ [CHR 0xEA] @
       ''. Seus aliados celebram, e o deus Gem concede uma b'' @ [CHR 0xEA] @ ''n'' @
       [CHR 0xE7] @ [CHR 0xE3] @ ''o adicional de '' @
       str_int (dado + max sorte carisma div 2) @
       '' pontos de inspira'' @ [CHR 0xE7] @ [CHR 0xE3] @ ''o.'')"
proof -
  from randint_faixa [of 0 2 g] have r: "0 \<le> fst (randint 0 2 g)" "fst (randint 0 2 g) \<le> 2"
    by simp_all
  show ?thesis
    using resolver_evento_escolhido [OF assms narrativa_gloria] r
    by (simp add: dict_get_def)
qed

theorem C3_gloria_witness:
  "\<exists>descr p1 g1.
     resolver_evento (exemplo 0 0) (EVENTOS ! 0) (sconst 4) (console_de [''1'']) =
       Inr (descr, p1, g1, \<lparr>entrada = [], saida = [pergunta_indice]\<rparr>) \<and>
     gloria p1 = 1 \<and> cicatrizes p1 = 0 \<and> atributos p1 = atributos (exemplo 0 0) \<and>
     descr = wrap (''Voc'' @ [CHR 0xEA] @
       '' opta por '' @ lower ''Exibir sua Forja Estelar em um duelo amistoso'' @ ''. '' @
       ''O mundo sorri para voc'' @ [CHR 0xEA] @
       ''. Seus aliados celebram, e o deus Gem concede uma b'' @ [CHR 0xEA] @ ''n'' @
       [CHR 0xE7] @ [CHR 0xE3] @ ''o adicional de 1 pontos de inspira'' @ [CHR 0xE7] @ [CHR 0xE3] @ ''o.'')"
proof -
  have t: "py_index (escolhas (EVENTOS ! 0)) 0 =
      Inr (''gloria'', ''Exibir sua Forja Estelar em um duelo amistoso'', ''gloria'')"
    by (simp add: EVENTOS_def py_index_def)
  have g: "gloria (exemplo 0 0) = 0" "cicatrizes (exemplo 0 0) = 0"
    by (simp_all add: exemplo_def)
  have b: "str_int (fst (randint 0 2 (sconst 4)) + max 0 1 div 2) = ''1''"
    by (simp add: randint_def str_int_def digitos.simps)
  from C3_gloria [OF primeiro_evento_1(1) t, of "exemplo 0 0" "sconst 4"]
  obtain descr p1 g1 where
    "resolver_evento (exemplo 0 0) (EVENTOS ! 0) (sconst 4) (console_de [''1'']) =
       Inr (descr, p1, g1, \<lparr>entrada = [], saida = [pergunta_indice]\<rparr>)"
    "gloria p1 = 1" "cicatrizes p1 = 0" "atributos p1 = atributos (exemplo 0 0)"
    "descr = wrap (''Voc'' @ [CHR 0xEA] @
       '' opta por '' @ lower ''Exibir sua Forja Estelar em um duelo amistoso'' @ ''. '' @
       ''O mundo sorri para voc'' @ [CHR 0xEA] @
       ''. Seus aliados celebram, e o deus Gem concede uma b'' @ [CHR 0xEA] @ ''n'' @
       [CHR 0xE7] @ [CHR 0xE3] @ ''o adicional de '' @
       str_int (fst (randint 0 2 (sconst 4)) + max 0 1 div 2) @
       '' pontos de inspira'' @ [CHR 0xE7] @ [CHR 0xE3] @ ''o.'')"
    unfolding g exemplo_atributos by auto
  then show ?thesis
    unfolding b by simp
qed

text \<open>
  C4. When the picked option carries the tag \<open>cicatriz\<close>, the character afterwards is the
  character before with the scars counter one higher and nothing else changed: the penalty,
  the draw (0 to 2) minus the smaller of vigor and luck divided by 3 rounding down, is
  written with its sign into the text and stored nowhere.
\<close>

theorem C4_cicatriz:
  assumes "solicitar_indice (int (length (escolhas ev))) c = Inr (i, c1)"
    and "py_index (escolhas ev) i = Inr (ident, texto, ''cicatriz'')"
  shows "\<exists>descr g1 dado.
     resolver_evento p ev g c = Inr (descr, p\<lparr>cicatrizes := cicatrizes p + 1\<rparr>, g1, c1) \<and>
     dado = fst (randint 0 2 g) \<and> 0 \<le> dado \<and> dado \<le> 2 \<and>
     descr = wrap (''Voc'' @ [CHR 0xEA] @ '' opta por '' @ lower texto @ ''. '' @
       ''O desafio cobra seu pre'' @ [CHR 0xE7] @ ''o; uma nova cicatriz surge, mas tamb'' @
       [CHR 0xE9] @ ''m deixa li'' @ [CHR 0xE7] @ [CHR 0xF5] @ ''es que refor'' @ [CHR 0xE7] @
       ''am sua determina'' @ [CHR 0xE7] @ [CHR 0xE3] @ ''o ('' @
       fmt_sinal (dado - min (dict_get (atributos p) ''vigor'' 0) (dict_get (atributos p) ''sorte'' 0) div 3) @
       '').'')"
proof -
  from randint_faixa [of 0 2 g] have r: "0 \<le> fst (randint 0 2 g)" "fst (randint 0 2 g) \<le> 2"
    by simp_all
  show ?thesis
    using resolver_evento_escolhido [OF assms narrativa_cicatriz] r
    by simp
qed

theorem C4_cicatriz_witness:
  "\<exists>descr g1.
     resolver_evento (exemplo 0 0) (EVENTOS ! 0) (sconst 4) (console_de [''3'']) =
       Inr (descr, (exemplo 0 0)\<lparr>cicatrizes := 1\<rparr>, g1, \<lparr>entrada = [], saida = [pergunta_indice]\<rparr>) \<and>
     atributos ((exemplo 0 0)\<lparr>cicatrizes := 1\<rparr>) = atributos (exemplo 0 0)"
proof -
  from primeiro_evento_3(2) obtain texto
    where t: "py_index (escolhas (EVENTOS ! 0)) 2 = Inr (''humildade'', texto, ''cicatriz'')" ..
  from C4_cicatriz [OF primeiro_evento_3(1) t, of "exemplo 0 0" "sconst 4"]
  show ?thesis
    by (auto simp: exemplo_def)
qed

text \<open>
  C10. In the mystic branch the echo in the text is the draw plus the mana on entry, so it
  lies between 1 + m and 6 + m for mana m, while the mana stored afterwards is m + 1.
\<close>

theorem C10_eco_antes_do_incremento:
  "\<exists>dado txt p1 g1.
     narrativa ''mistico'' p g = (txt, p1, g1) \<and>
     dado = fst (randint 1 6 g) \<and> 1 \<le> dado \<and> dado \<le> 6 \<and>
     1 + dict_get (atributos p) ''mana'' 0 \<le> dado + dict_get (atributos p) ''mana'' 0 \<and>
     dado + dict_get (atributos p) ''mana'' 0 \<le> 6 + dict_get (atributos p) ''mana'' 0 \<and>
     txt = ''Seu poder m'' @ [CHR 0xED] @
       ''stico pulsa intensamente, revelando segredos antigos. Voc'' @ [CHR 0xEA] @
       '' acumula '' @ str_int (dado + dict_get (atributos p) ''mana'' 0) @
       '' ecos arcanos e aperfei'' @ [CHR 0xE7] @ ''oa sua mana.'' \<and>
     dict_get (atributos p1) ''mana'' 0 = dict_get (atributos p) ''mana'' 0 + 1"
proof -
  from randint_faixa [of 1 6 g] have r: "1 \<le> fst (randint 1 6 g)" "fst (randint 1 6 g) \<le> 6"
    by simp_all
  show ?thesis
    using r by (simp add: narrativa_mistico dict_get_dict_set)
qed


theorem C10_eco_antes_do_incremento_witness:
  "\<exists>p1 g1. narrativa ''mistico'' (exemplo 0 0) (sconst 4) =
     (''Seu poder m'' @ [CHR 0xED] @
      ''stico pulsa intensamente, revelando segredos antigos. Voc'' @ [CHR 0xEA] @
      '' acumula 8 ecos arcanos e aperfei'' @ [CHR 0xE7] @ ''oa sua mana.'', p1, g1) \<and>
     dict_get (atributos (exemplo 0 0)) ''mana'' 0 = 3 \<and> dict_get (atributos p1) ''mana'' 0 = 4"
  using C10_eco_antes_do_incremento [of "exemplo 0 0" "sconst 4"]
  by (auto simp: exemplo_atributos dict_get_def randint_def str_int_def digitos.simps)

subsection \<open>Summing the choices\<close>

lemma soma_chave_distinct: "distinct (chaves d) \<Longrightarrow> soma_chave d k = dict_get d k 0"
proof (induction d)
  case Nil
  then show ?case by (simp add: soma_chave_def dict_get_def)
next
  case (Cons kv d)
  obtain k' v where kv: "kv = (k', v)" by (cases kv)
  from Cons.prems have nin: "k' \<notin> fst ` set d" and dist: "distinct (chaves d)"
    by (simp_all add: kv)
  show ?case
  proof (cases "k' = k")
    case True
    with nin have "filter (\<lambda>kv. fst kv = k) d = []"
      by (auto simp: filter_empty_conv)
    with True show ?thesis by (simp add: soma_chave_def dict_get_def kv)
  next
    case False
    with Cons.IH [OF dist] show ?thesis by (simp add: soma_chave_def dict_get_def kv)
  qed
qed

lemma dict_get_aplicar_itens: "dict_get (aplicar_itens itens d) k 0 = dict_get d k 0 + soma_chave itens k"
proof (induction itens arbitrary: d)
  case Nil
  then show ?case by (simp add: soma_chave_def)
next
  case (Cons kv itens)
  obtain c v where kv: "kv = (c, v)" by (cases kv)
  have "dict_get (aplicar_itens (kv # itens) d) k 0 =
      dict_get (dict_set d c (dict_get d c 0 + v)) k 0 + soma_chave itens k"
    by (simp add: kv Cons.IH)
  also have "\<dots> = dict_get d k 0 + soma_chave (kv # itens) k"
    by (simp add: dict_get_dict_set kv soma_chave_def)
  finally show ?case .
qed

lemma dom_aplicar_itens: "dom (map_of (aplicar_itens itens d)) = dom (map_of d) \<union> fst ` set itens"
proof (induction itens arbitrary: d)
  case Nil
  then show ?case by simp
next
  case (Cons kv itens)
  obtain c v where kv: "kv = (c, v)" by (cases kv)
  show ?case by (auto simp: kv Cons.IH map_of_dict_set)
qed

lemma dict_get_aplicar_lista:
  "dict_get (aplicar_lista es d) k 0 =
     dict_get d k 0 + sum_list (map (\<lambda>e. soma_chave (Escolha.atributos e) k) es)"
  by (induction es arbitrary: d) (simp_all add: dict_get_aplicar_itens)

lemma dom_aplicar_lista:
  "dom (map_of (aplicar_lista es d)) = dom (map_of d) \<union> (\<Union>e \<in> set es. fst ` set (Escolha.atributos e))"
  by (induction es arbitrary: d) (auto simp: dom_aplicar_itens)

lemma map_of_igual:
  assumes "dom (map_of a) = dom (map_of b)" and "\<And>k. dict_get a k 0 = dict_get b k (0::int)"
  shows "map_of a = map_of b"
proof
  fix k
  show "map_of a k = map_of b k"
  proof (cases "map_of a k")
    case None
    then have "k \<notin> dom (map_of a)" by (simp add: domIff)
    with assms(1) have "k \<notin> dom (map_of b)" by simp
    with None show ?thesis by (simp add: domIff)
  next
    case (Some v)
    then have "k \<in> dom (map_of a)" by (simp add: domIff)
    with assms(1) have "k \<in> dom (map_of b)" by simp
    then obtain w where w: "map_of b k = Some w" by auto
    from assms(2) [of k] Some w show ?thesis by (simp add: dict_get_def)
  qed
qed

lemma aplicar_lista_permutacao:
  assumes "mset es = mset es'"
  shows "map_of (aplicar_lista es d) = map_of (aplicar_lista es' d)"
proof (rule map_of_igual)
  from assms have "set es = set es'" by (rule mset_eq_setD)
  then show "dom (map_of (aplicar_lista es d)) = dom (map_of (aplicar_lista es' d))"
    by (simp add: dom_aplicar_lista)
next
  fix k
  have "sum_list (map (\<lambda>e. soma_chave (Escolha.atributos e) k) es) =
        sum_mset (image_mset (\<lambda>e. soma_chave (Escolha.atributos e) k) (mset es))"
    by (metis mset_map sum_mset_sum_list)
  also have "\<dots> = sum_list (map (\<lambda>e. soma_chave (Escolha.atributos e) k) es')"
    unfolding assms by (metis mset_map sum_mset_sum_list)
  finally show "dict_get (aplicar_lista es d) k 0 = dict_get (aplicar_lista es' d) k 0"
    by (simp add: dict_get_aplicar_lista)
qed

text \<open>
  C5. For any four choices (each a dictionary, so with distinct keys), the character that
  creation builds has, for every key, the sum of the four deltas of that key, an absent
  delta counting as 0. The loop raises nothing, and the order of the choices does not
  matter: folding the same four choices in any other order gives the same mapping from keys
  to values.
\<close>

theorem C5_agregacao:
  assumes "distinct (chaves (Escolha.atributos m))" and "distinct (chaves (Escolha.atributos ori))"
    and "distinct (chaves (Escolha.atributos pod))" and "distinct (chaves (Escolha.atributos leg))"
  shows "(\<forall>k. dict_get (atributos (aplicar_escolhas (Personagem_init n m ori pod leg))) k 0 =
            dict_get (Escolha.atributos m) k 0 + dict_get (Escolha.atributos ori) k 0 +
            dict_get (Escolha.atributos pod) k 0 + dict_get (Escolha.atributos leg) k 0) \<and>
         (\<forall>es. mset es = mset [m, ori, pod, leg] \<longrightarrow>
            map_of (aplicar_lista es (atributos (Personagem_init n m ori pod leg))) =
            map_of (atributos (aplicar_escolhas (Personagem_init n m ori pod leg))))"
proof (intro conjI allI impI)
  fix k
  have zero: "dict_get (atributos (Personagem_init n m ori pod leg)) k 0 = 0"
    by (simp add: Personagem_init_def dict_get_def)
  have "dict_get (atributos (aplicar_escolhas (Personagem_init n m ori pod leg))) k 0 =
          dict_get (atributos (Personagem_init n m ori pod leg)) k 0 +
          sum_list (map (\<lambda>e. soma_chave (Escolha.atributos e) k) [m, ori, pod, leg])"
    by (simp add: aplicar_escolhas_def dict_get_aplicar_lista Personagem_init_def
        del: aplicar_lista.simps)
  also have "\<dots> = dict_get (Escolha.atributos m) k 0 + dict_get (Escolha.atributos ori) k 0 +
            dict_get (Escolha.atributos pod) k 0 + dict_get (Escolha.atributos leg) k 0"
    using assms by (simp add: zero soma_chave_distinct)
  finally show "dict_get (atributos (aplicar_escolhas (Personagem_init n m ori pod leg))) k 0 =
            dict_get (Escolha.atributos m) k 0 + dict_get (Escolha.atributos ori) k 0 +
            dict_get (Escolha.atributos pod) k 0 + dict_get (Escolha.atributos leg) k 0" .
next
  fix es
  assume "mset es = mset [m, ori, pod, leg]"
  from aplicar_lista_permutacao [OF this]
  show "map_of (aplicar_lista es (atributos (Personagem_init n m ori pod leg))) =
        map_of (atributos (aplicar_escolhas (Personagem_init n m ori pod leg)))"
    by (simp add: aplicar_escolhas_def Personagem_init_def del: aplicar_lista.simps)
qed

theorem C5_agregacao_witness:
  "distinct (chaves (Escolha.atributos (MUNDOS ! 1))) \<and> distinct (chaves (Escolha.atributos (ORIGENS ! 0))) \<and>
   distinct (chaves (Escolha.atributos (PODERES ! 0))) \<and> distinct (chaves (Escolha.atributos (LEGADOS ! 0))) \<and>
   dict_get (atributos (aplicar_escolhas
      (Personagem_init ''Ana'' (MUNDOS ! 1) (ORIGENS ! 0) (PODERES ! 0) (LEGADOS ! 0)))) ''vigor'' 0 = 2 + 1 + 1 + 1 \<and>
   mset [LEGADOS ! 0, PODERES ! 0, ORIGENS ! 0, MUNDOS ! 1] =
     mset [MUNDOS ! 1, ORIGENS ! 0, PODERES ! 0, LEGADOS ! 0] \<and>
   map_of (aplicar_lista [LEGADOS ! 0, PODERES ! 0, ORIGENS ! 0, MUNDOS ! 1]
      (atributos (Personagem_init ''Ana'' (MUNDOS ! 1) (ORIGENS ! 0) (PODERES ! 0) (LEGADOS ! 0)))) =
   map_of (atributos (aplicar_escolhas
      (Personagem_init ''Ana'' (MUNDOS ! 1) (ORIGENS ! 0) (PODERES ! 0) (LEGADOS ! 0))))"
proof -
  have d: "distinct (chaves (Escolha.atributos (MUNDOS ! 1)))"
    "distinct (chaves (Escolha.atributos (ORIGENS ! 0)))"
    "distinct (chaves (Escolha.atributos (PODERES ! 0)))"
    "distinct (chaves (Escolha.atributos (LEGADOS ! 0)))"
    by (simp_all add: MUNDOS_def ORIGENS_def PODERES_def LEGADOS_def)
  have v: "dict_get (Escolha.atributos (MUNDOS ! 1)) ''vigor'' 0 = 2"
    "dict_get (Escolha.atributos (ORIGENS ! 0)) ''vigor'' 0 = 1"
    "dict_get (Escolha.atributos (PODERES ! 0)) ''vigor'' 0 = 1"
    "dict_get (Escolha.atributos (LEGADOS ! 0)) ''vigor'' 0 = 1"
    by (simp_all add: MUNDOS_def ORIGENS_def PODERES_def LEGADOS_def dict_get_def)
  have m: "mset [LEGADOS ! 0, PODERES ! 0, ORIGENS ! 0, MUNDOS ! 1] =
     mset [MUNDOS ! 1, ORIGENS ! 0, PODERES ! 0, LEGADOS ! 0]"
    by (simp add: add_mset_commute)
  note t = C5_agregacao [OF d, of "''Ana''"]
  from t have "dict_get (atributos (aplicar_escolhas
      (Personagem_init ''Ana'' (MUNDOS ! 1) (ORIGENS ! 0) (PODERES ! 0) (LEGADOS ! 0)))) ''vigor'' 0 = 2 + 1 + 1 + 1"
    using v by metis
  moreover from t m have "map_of (aplicar_lista [LEGADOS ! 0, PODERES ! 0, ORIGENS ! 0, MUNDOS ! 1]
      (atributos (Personagem_init ''Ana'' (MUNDOS ! 1) (ORIGENS ! 0) (PODERES ! 0) (LEGADOS ! 0)))) =
   map_of (atributos (aplicar_escolhas
      (Personagem_init ''Ana'' (MUNDOS ! 1) (ORIGENS ! 0) (PODERES ! 0) (LEGADOS ! 0))))"
    by blast
  ultimately show ?thesis
    using d m by blast
qed

subsection \<open>The index prompt\<close>

lemma solicitar_indice_fim:
  "entrada c = [] \<Longrightarrow> solicitar_indice n c = Inl (EOFError, c\<lparr>saida := saida c @ [pergunta_indice]\<rparr>)"
  by (subst solicitar_indice.simps) (simp add: input_py_def)

lemma solicitar_indice_invalida:
  assumes "entrada c = linha # resto" and "\<not> valida n linha"
  shows "solicitar_indice n c =
     solicitar_indice n (c\<lparr>entrada := resto, saida := saida c @ [pergunta_indice, aviso linha @ [CHR 0x0A]]\<rparr>)"
  using assms
  by (subst solicitar_indice.simps)
    (auto simp: input_py_def valida_def aviso_def print_def split: option.splits)

lemma solicitar_indice_so_invalidas:
  "\<forall>l \<in> set (entrada c). \<not> valida n l \<Longrightarrow>
   solicitar_indice n c =
     Inl (EOFError,
          c\<lparr>entrada := [],
            saida := saida c @ concat (map (\<lambda>l. [pergunta_indice, aviso l @ [CHR 0x0A]]) (entrada c)) @
                     [pergunta_indice]\<rparr>)"
proof (induction "entrada c" arbitrary: c)
  case Nil
  then show ?case
    using solicitar_indice_fim [of c n] by simp
next
  case (Cons linha resto)
  let ?c = "c\<lparr>entrada := resto, saida := saida c @ [pergunta_indice, aviso linha @ [CHR 0x0A]]\<rparr>"
  from Cons.hyps(2) Cons.prems have inv: "\<not> valida n linha" and r: "\<forall>l \<in> set resto. \<not> valida n l"
    by (metis list.set_intros(1), metis list.set_intros(2))
  have "solicitar_indice n c = solicitar_indice n ?c"
    using solicitar_indice_invalida [OF Cons.hyps(2) [symmetric] inv] .
  also have "\<dots> = Inl (EOFError,
          ?c\<lparr>entrada := [],
             saida := saida ?c @ concat (map (\<lambda>l. [pergunta_indice, aviso l @ [CHR 0x0A]]) (entrada ?c)) @
                      [pergunta_indice]\<rparr>)"
    using Cons.hyps(1) [of ?c] r by simp
  finally show ?case
    using Cons.hyps(2) [symmetric] by simp
qed

lemma solicitar_indice_apos_invalidas:
  assumes "entrada c = ruins @ linha # resto" and "\<forall>l \<in> set ruins. \<not> valida n l"
    and "py_int linha = Some i" and "1 \<le> i" and "i \<le> n"
  shows "solicitar_indice n c =
     Inr (i - 1, c\<lparr>entrada := resto,
                     saida := saida c @ concat (map (\<lambda>l. [pergunta_indice, aviso l @ [CHR 0x0A]]) ruins) @
                              [pergunta_indice]\<rparr>)"
  using assms(1,2)
proof (induction ruins arbitrary: c)
  case Nil
  then show ?case
    using solicitar_indice_valida [of c linha resto i n] assms(3-5) by simp
next
  case (Cons r ruins)
  let ?c = "c\<lparr>entrada := ruins @ linha # resto, saida := saida c @ [pergunta_indice, aviso r @ [CHR 0x0A]]\<rparr>"
  from Cons.prems have e: "entrada c = r # (ruins @ linha # resto)" and inv: "\<not> valida n r"
    and rest: "\<forall>l \<in> set ruins. \<not> valida n l"
    by simp_all
  have "solicitar_indice n c = solicitar_indice n ?c"
    using solicitar_indice_invalida [OF e inv] .
  also have "\<dots> = Inr (i - 1, ?c\<lparr>entrada := resto,
       saida := saida ?c @ concat (map (\<lambda>l. [pergunta_indice, aviso l @ [CHR 0x0A]]) ruins) @ [pergunta_indice]\<rparr>)"
    using Cons.IH [of ?c] rest by simp
  finally show ?case by simp
qed

text \<open>
  C6. For a menu of \<open>option_count\<close> options and a line that reads as an index \<open>i\<close> from 1
  to \<open>option_count\<close>, the selection returns option \<open>i - 1\<close> of the list (counting from
  0); invalid lines typed before it do not change the result, and the lines after it stay
  unread.
\<close>

theorem C6_selecao:
  assumes "entrada c = ruins @ linha # resto" and "\<forall>l \<in> set ruins. \<not> valida (int (length opcoes)) l"
    and "py_int linha = Some i" and "1 \<le> i" and "i \<le> int (length opcoes)"
  shows "\<exists>c1. apresentar_opcoes tit opcoes c = Inr (opcoes ! nat (i - 1), c1) \<and> entrada c1 = resto"
  using solicitar_indice_apos_invalidas [OF assms] assms(4,5)
  by (simp add: apresentar_opcoes_def py_index_def)

theorem C6_selecao_witness:
  "\<exists>c1. apresentar_opcoes ''Escolha seu novo mundo'' MUNDOS (console_de [''abc'', ''9'', ''2'', ''1'']) =
     Inr (MUNDOS ! 1, c1) \<and> entrada c1 = [''1'']"
proof -
  have a: "py_int ''abc'' = None"
    by (simp add: py_int_def int_ws_def digito_def cp_def)
  have n: "py_int ''9'' = Some 9" "py_int ''2'' = Some 2"
    using py_int_um_digito [of "CHR ''9''"] py_int_um_digito [of "CHR ''2''"]
    by (simp_all add: digito_def cp_def)
  have l: "int (length MUNDOS) = 3" by (simp add: MUNDOS_def)
  have inv: "\<forall>l \<in> set [''abc'', ''9'']. \<not> valida (int (length MUNDOS)) l"
    unfolding l by (simp add: valida_def a n)
  have e: "entrada (console_de [''abc'', ''9'', ''2'', ''1'']) = [''abc'', ''9''] @ ''2'' # [''1'']"
    by (simp add: console_de_def)
  from C6_selecao [OF e inv n(2), of "''Escolha seu novo mundo''"] l
  show ?thesis by simp
qed

text \<open>
  C7, as the program has it. A line that is not a number, or whose number lies outside 1 to
  \<open>option_count\<close>, makes the loop print one of its two corrective messages and ask again,
  with nothing changed but the line read and the text written. The loop returns at the first
  valid line, with the index of that line, the later lines unread, and on the screen the
  prompt and the message for each invalid line before it. It lets no error of its own out;
  what it does let out is the \<open>EOFError\<close> of \<open>input()\<close>, when the input ends before a
  valid line, and then too the prompt and the message for every line are on the screen.
\<close>

theorem C7_reprompt:
  "(entrada c = linha # resto \<and> \<not> valida n linha \<longrightarrow>
      aviso linha \<in> {aviso_numero, aviso_invalida} \<and>
      solicitar_indice n c =
        solicitar_indice n (c\<lparr>entrada := resto,
                               saida := saida c @ [pergunta_indice, aviso linha @ [CHR 0x0A]]\<rparr>)) \<and>
   (entrada c = ruins @ linha # resto \<and> (\<forall>l \<in> set ruins. \<not> valida n l) \<and> valida n linha \<longrightarrow>
      (\<exists>i. py_int linha = Some i \<and> 1 \<le> i \<and> i \<le> n \<and>
         solicitar_indice n c =
           Inr (i - 1,
                c\<lparr>entrada := resto,
                  saida := saida c @ concat (map (\<lambda>l. [pergunta_indice, aviso l @ [CHR 0x0A]]) ruins) @
                           [pergunta_indice]\<rparr>))) \<and>
   ((\<exists>l \<in> set (entrada c). valida n l) \<longrightarrow>
      (\<exists>i c1. solicitar_indice n c = Inr (i, c1) \<and> 0 \<le> i \<and> i < n)) \<and>
   ((\<forall>l \<in> set (entrada c). \<not> valida n l) \<longrightarrow>
      solicitar_indice n c =
        Inl (EOFError,
             c\<lparr>entrada := [],
               saida := saida c @ concat (map (\<lambda>l. [pergunta_indice, aviso l @ [CHR 0x0A]]) (entrada c)) @
                        [pergunta_indice]\<rparr>))"
proof (intro conjI impI)
  assume "entrada c = linha # resto \<and> \<not> valida n linha"
  then show "solicitar_indice n c =
        solicitar_indice n (c\<lparr>entrada := resto,
                               saida := saida c @ [pergunta_indice, aviso linha @ [CHR 0x0A]]\<rparr>)"
    using solicitar_indice_invalida by blast
next
  show "aviso linha \<in> {aviso_numero, aviso_invalida}"
    by (simp add: aviso_def split: option.splits)
next
  assume a: "entrada c = ruins @ linha # resto \<and> (\<forall>l \<in> set ruins. \<not> valida n l) \<and> valida n linha"
  then obtain i where i: "py_int linha = Some i" "1 \<le> i" "i \<le> n"
    by (auto simp: valida_def split: option.splits)
  from a have e: "entrada c = ruins @ linha # resto" and r: "\<forall>l \<in> set ruins. \<not> valida n l"
    by simp_all
  from solicitar_indice_apos_invalidas [OF e r i] i
  show "\<exists>i. py_int linha = Some i \<and> 1 \<le> i \<and> i \<le> n \<and>
         solicitar_indice n c =
           Inr (i - 1,
                c\<lparr>entrada := resto,
                  saida := saida c @ concat (map (\<lambda>l. [pergunta_indice, aviso l @ [CHR 0x0A]]) ruins) @
                           [pergunta_indice]\<rparr>)"
    by blast
next
  assume "\<exists>l \<in> set (entrada c). valida n l"
  then obtain ruins l resto where e: "entrada c = ruins @ l # resto" and v: "valida n l"
    and r: "\<forall>x \<in> set ruins. \<not> valida n x"
    by (metis split_list_first_prop)
  from v obtain i where i: "py_int l = Some i" "1 \<le> i" "i \<le> n"
    by (auto simp: valida_def split: option.splits)
  from solicitar_indice_apos_invalidas [OF e r i] i(2,3)
  show "\<exists>i c1. solicitar_indice n c = Inr (i, c1) \<and> 0 \<le> i \<and> i < n"
    by simp
next
  assume "\<forall>l \<in> set (entrada c). \<not> valida n l"
  then show "solicitar_indice n c =
        Inl (EOFError,
             c\<lparr>entrada := [],
               saida := saida c @ concat (map (\<lambda>l. [pergunta_indice, aviso l @ [CHR 0x0A]]) (entrada c)) @
                        [pergunta_indice]\<rparr>)"
    by (rule solicitar_indice_so_invalidas)
qed

theorem C7_reprompt_witness:
  "\<not> valida 3 ''abc'' \<and> \<not> valida 3 ''7'' \<and> valida 3 ''2'' \<and>
   solicitar_indice 3 (console_de [''abc'', ''7'', ''2'', ''1'']) =
     solicitar_indice 3 \<lparr>entrada = [''7'', ''2'', ''1''], saida = [pergunta_indice, aviso_numero @ [CHR 0x0A]]\<rparr> \<and>
   solicitar_indice 3 (console_de [''abc'', ''7'', ''2'', ''1'']) =
     Inr (1, \<lparr>entrada = [''1''],
              saida = [pergunta_indice, aviso_numero @ [CHR 0x0A],
                       pergunta_indice, aviso_invalida @ [CHR 0x0A], pergunta_indice]\<rparr>) \<and>
   (\<exists>i c1. solicitar_indice 3 (console_de [''abc'', ''7'', ''2'', ''1'']) = Inr (i, c1) \<and> 0 \<le> i \<and> i < 3) \<and>
   solicitar_indice 3 (console_de [''abc'']) =
     Inl (EOFError, \<lparr>entrada = [], saida = [pergunta_indice, aviso_numero @ [CHR 0x0A], pergunta_indice]\<rparr>)"
proof -
  have a: "py_int ''abc'' = None"
    by (simp add: py_int_def int_ws_def digito_def cp_def)
  have n: "py_int ''2'' = Some 2" "py_int ''7'' = Some 7"
    using py_int_um_digito [of "CHR ''2''"] py_int_um_digito [of "CHR ''7''"]
    by (simp_all add: digito_def cp_def)
  have inv: "\<not> valida 3 ''abc''" "\<not> valida 3 ''7''" and v: "valida 3 ''2''"
    by (simp_all add: valida_def a n)
  have av: "aviso ''abc'' = aviso_numero" "aviso ''7'' = aviso_invalida"
    by (simp_all add: aviso_def a n)
  note t = C7_reprompt [where c = "console_de [''abc'', ''7'', ''2'', ''1'']" and linha = "''abc''"
      and resto = "[''7'', ''2'', ''1'']" and n = 3]
  from t inv(1)
  have um: "solicitar_indice 3 (console_de [''abc'', ''7'', ''2'', ''1'']) =
     solicitar_indice 3 \<lparr>entrada = [''7'', ''2'', ''1''], saida = [pergunta_indice, aviso_numero @ [CHR 0x0A]]\<rparr>"
    by (simp add: console_de_def av)
  from C7_reprompt [where c = "console_de [''abc'', ''7'', ''2'', ''1'']" and linha = "''2''"
      and resto = "[''1'']" and n = 3 and ruins = "[''abc'', ''7'']"]
  have "entrada (console_de [''abc'', ''7'', ''2'', ''1'']) = [''abc'', ''7''] @ ''2'' # [''1''] \<and>
        (\<forall>l \<in> set [''abc'', ''7'']. \<not> valida 3 l) \<and> valida 3 ''2'' \<longrightarrow>
        (\<exists>i. py_int ''2'' = Some i \<and> 1 \<le> i \<and> i \<le> 3 \<and>
           solicitar_indice 3 (console_de [''abc'', ''7'', ''2'', ''1'']) =
             Inr (i - 1,
                  (console_de [''abc'', ''7'', ''2'', ''1''])\<lparr>entrada := [''1''],
                    saida := saida (console_de [''abc'', ''7'', ''2'', ''1'']) @
                      concat (map (\<lambda>l. [pergunta_indice, aviso l @ [CHR 0x0A]]) [''abc'', ''7'']) @
                      [pergunta_indice]\<rparr>))"
    by blast
  with inv v have dois: "solicitar_indice 3 (console_de [''abc'', ''7'', ''2'', ''1'']) =
     Inr (1, \<lparr>entrada = [''1''],
              saida = [pergunta_indice, aviso_numero @ [CHR 0x0A],
                       pergunta_indice, aviso_invalida @ [CHR 0x0A], pergunta_indice]\<rparr>)"
    by (auto simp: console_de_def av n)
  from C7_reprompt [where c = "console_de [''abc'', ''7'', ''2'', ''1'']" and n = 3]
  have "(\<exists>l \<in> set (entrada (console_de [''abc'', ''7'', ''2'', ''1''])). valida 3 l) \<longrightarrow>
      (\<exists>i c1. solicitar_indice 3 (console_de [''abc'', ''7'', ''2'', ''1'']) = Inr (i, c1) \<and> 0 \<le> i \<and> i < 3)"
    by blast
  with v have tres: "\<exists>i c1. solicitar_indice 3 (console_de [''abc'', ''7'', ''2'', ''1'']) = Inr (i, c1) \<and> 0 \<le> i \<and> i < 3"
    by (simp add: console_de_def)
  from C7_reprompt [where c = "console_de [''abc'']" and n = 3]
  have "(\<forall>l \<in> set (entrada (console_de [''abc''])). \<not> valida 3 l) \<longrightarrow>
      solicitar_indice 3 (console_de [''abc'']) =
        Inl (EOFError,
             (console_de [''abc''])\<lparr>entrada := [],
               saida := saida (console_de [''abc'']) @
                 concat (map (\<lambda>l. [pergunta_indice, aviso l @ [CHR 0x0A]]) (entrada (console_de [''abc'']))) @
                 [pergunta_indice]\<rparr>)"
    by blast
  with inv have quatro: "solicitar_indice 3 (console_de [''abc'']) =
     Inl (EOFError, \<lparr>entrada = [], saida = [pergunta_indice, aviso_numero @ [CHR 0x0A], pergunta_indice]\<rparr>)"
    by (simp add: console_de_def av)
  from inv v um dois tres quatro show ?thesis by blast
qed

text \<open>The claim as stated fails: two invalid lines and then the end of the input, and the
  loop lets the \<open>EOFError\<close> out, after a message for each of the two lines and a third
  prompt.\<close>

theorem C7_contraexemplo:
  "\<not> valida 3 ''abc'' \<and> \<not> valida 3 ''7'' \<and>
   solicitar_indice 3 (console_de [''abc'', ''7'']) =
     Inl (EOFError,
          \<lparr>entrada = [],
           saida = [pergunta_indice, aviso_numero @ [CHR 0x0A],
                    pergunta_indice, aviso_invalida @ [CHR 0x0A], pergunta_indice]\<rparr>)"
proof -
  have a: "py_int ''abc'' = None"
    by (simp add: py_int_def int_ws_def digito_def cp_def)
  have n: "py_int ''7'' = Some 7"
    using py_int_um_digito [of "CHR ''7''"] by (simp add: digito_def cp_def)
  have inv: "\<not> valida 3 ''abc''" "\<not> valida 3 ''7''"
    by (simp_all add: valida_def a n)
  have av: "aviso ''abc'' = aviso_numero" "aviso ''7'' = aviso_invalida"
    by (simp_all add: aviso_def a n)
  have "\<forall>l \<in> set (entrada (console_de [''abc'', ''7''])). \<not> valida 3 l"
    by (simp add: console_de_def inv)
  from solicitar_indice_so_invalidas [OF this]
  have "solicitar_indice 3 (console_de [''abc'', ''7'']) =
     Inl (EOFError,
          \<lparr>entrada = [],
           saida = [pergunta_indice, aviso_numero @ [CHR 0x0A],
                    pergunta_indice, aviso_invalida @ [CHR 0x0A], pergunta_indice]\<rparr>)"
    by (simp add: console_de_def av)
  with inv show ?thesis by simp
qed

subsection \<open>A full run, evaluated\<close>

lemma solicitar_indice_Nil:
  "solicitar_indice n \<lparr>entrada = [], saida = out\<rparr> =
     Inl (EOFError, \<lparr>entrada = [], saida = out @ [pergunta_indice]\<rparr>)"
  by (simp add: solicitar_indice_fim)

lemma solicitar_indice_Cons:
  "solicitar_indice n \<lparr>entrada = l # ls, saida = out\<rparr> =
     (case py_int l of
        None \<Rightarrow> solicitar_indice n \<lparr>entrada = ls, saida = out @ [pergunta_indice, aviso_numero @ [CHR 0x0A]]\<rparr>
      | Some k \<Rightarrow>
          if 0 \<le> k - 1 \<and> k - 1 < n then Inr (k - 1, \<lparr>entrada = ls, saida = out @ [pergunta_indice]\<rparr>)
          else solicitar_indice n \<lparr>entrada = ls, saida = out @ [pergunta_indice, aviso_invalida @ [CHR 0x0A]]\<rparr>)"
  by (subst solicitar_indice.simps) (simp add: input_py_def print_def split: option.splits)

lemma solicitar_nome_Cons:
  "solicitar_nome \<lparr>entrada = l # ls, saida = out\<rparr> =
     (if strip l \<noteq> [] then Inr (strip l, \<lparr>entrada = ls, saida = out @ [pergunta_nome]\<rparr>)
      else solicitar_nome \<lparr>entrada = ls, saida = out @ [pergunta_nome, aviso_nome @ [CHR 0x0A]]\<rparr>)"
  by (subst solicitar_nome.simps) (simp add: input_py_def print_def)

lemma py_int_1_2: "py_int ''1'' = Some 1" "py_int ''2'' = Some 2"
  using py_int_um_digito [of "CHR ''1''"] py_int_um_digito [of "CHR ''2''"]
  by (simp_all add: digito_def cp_def)

lemma strip_pedro: "strip ''Pedro Henrique'' = ''Pedro Henrique''"
  by (simp add: strip_def py_isspace_def cp_def)

lemma preparar_exemplo:
  "preparar_personagem (console_de entrada_exemplo) =
     Inr (aplicar_escolhas (Personagem_init ''Pedro Henrique'' (MUNDOS ! 1) (ORIGENS ! 0) (PODERES ! 0) (LEGADOS ! 0)),
          \<lparr>entrada = [''1'', ''2'', ''1''],
           saida = [pergunta_nome, pergunta_indice, pergunta_indice, pergunta_indice, pergunta_indice]\<rparr>)"
  by (simp add: preparar_personagem_def console_de_def entrada_exemplo_def solicitar_nome_Cons
      strip_pedro apresentar_opcoes_def solicitar_indice_Cons py_int_1_2 py_index_def
      MUNDOS_def ORIGENS_def PODERES_def LEGADOS_def)

lemma jogar_exemplo:
  "jogar (sconst 0) (console_de entrada_exemplo) =
     Inr (final_exemplo, sconst 0,
          \<lparr>entrada = [],
           saida = [pergunta_nome, pergunta_indice, pergunta_indice, pergunta_indice, pergunta_indice,
                    pergunta_indice, pergunta_indice, pergunta_indice]\<rparr>)"
  by (simp add: jogar_def preparar_exemplo simular_aventura_def EVENTOS_def resolver_evento_def
      resolver_def solicitar_indice_Cons py_int_1_2 py_index_def narrativa_gloria final_exemplo_def
      randint_def aplicar_escolhas_def Personagem_init_def MUNDOS_def ORIGENS_def PODERES_def
      LEGADOS_def dict_get_def)

lemma preparar_exemplo_inicial:
  "preparar_personagem (console_de entrada_exemplo) =
     Inr (inicial_exemplo,
          \<lparr>entrada = [''1'', ''2'', ''1''],
           saida = [pergunta_nome, pergunta_indice, pergunta_indice, pergunta_indice, pergunta_indice]\<rparr>)"
  by (simp add: preparar_exemplo inicial_exemplo_def aplicar_escolhas_def Personagem_init_def
      MUNDOS_def ORIGENS_def PODERES_def LEGADOS_def dict_get_def)

lemma primeiro_evento_exemplo:
  "\<exists>descr. resolver_evento inicial_exemplo (EVENTOS ! 0) (sconst 0)
       \<lparr>entrada = [''1'', ''2'', ''1''],
        saida = [pergunta_nome, pergunta_indice, pergunta_indice, pergunta_indice, pergunta_indice]\<rparr> =
     Inr (descr, inicial_exemplo\<lparr>gloria := 1\<rparr>, sconst 0,
          \<lparr>entrada = [''2'', ''1''],
           saida = [pergunta_nome, pergunta_indice, pergunta_indice, pergunta_indice, pergunta_indice,
                    pergunta_indice]\<rparr>)"
  by (simp add: EVENTOS_def resolver_evento_def resolver_def solicitar_indice_Cons py_int_1_2
      py_index_def narrativa_gloria randint_def inicial_exemplo_def)

subsection \<open>Nothing goes negative\<close>

lemma dict_set_nao_neg:
  "list_all (\<lambda>kv. 0 \<le> snd kv) d \<Longrightarrow> 0 \<le> v \<Longrightarrow> list_all (\<lambda>kv. (0::int) \<le> snd kv) (dict_set d k v)"
  by (induction d) auto

lemma dict_get_nao_neg: "list_all (\<lambda>kv. 0 \<le> snd kv) d \<Longrightarrow> (0::int) \<le> dict_get d k 0"
proof (cases "map_of d k")
  case None
  then show ?thesis by (simp add: dict_get_def)
next
  case (Some v)
  assume a: "list_all (\<lambda>kv. 0 \<le> snd kv) d"
  from Some have "(k, v) \<in> set d" by (rule map_of_SomeD)
  with a have "0 \<le> v" by (auto simp: list_all_iff)
  with Some show ?thesis by (simp add: dict_get_def)
qed

lemma aplicar_itens_nao_neg:
  "list_all (\<lambda>kv. 0 \<le> snd kv) itens \<Longrightarrow> list_all (\<lambda>kv. 0 \<le> snd kv) d \<Longrightarrow>
   list_all (\<lambda>kv. 0 \<le> snd kv) (aplicar_itens itens d)"
proof (induction itens arbitrary: d)
  case Nil
  then show ?case by simp
next
  case (Cons kv itens)
  obtain c v where kv: "kv = (c, v)" by (cases kv)
  from Cons.prems have v: "0 \<le> v" and r: "list_all (\<lambda>kv. 0 \<le> snd kv) itens"
    by (simp_all add: kv)
  from dict_get_nao_neg [OF Cons.prems(2), of c] v have "0 \<le> dict_get d c 0 + v" by simp
  from dict_set_nao_neg [OF Cons.prems(2) this]
  have "list_all (\<lambda>kv. 0 \<le> snd kv) (dict_set d c (dict_get d c 0 + v))" .
  from Cons.IH [OF r this] show ?case by (simp add: kv)
qed

lemma aplicar_lista_nao_neg:
  "\<forall>e \<in> set es. list_all (\<lambda>kv. 0 \<le> snd kv) (Escolha.atributos e) \<Longrightarrow>
   list_all (\<lambda>kv. 0 \<le> snd kv) d \<Longrightarrow> list_all (\<lambda>kv. 0 \<le> snd kv) (aplicar_lista es d)"
  by (induction es arbitrary: d) (simp_all add: aplicar_itens_nao_neg)

lemma catalogo_nao_neg:
  "\<forall>e \<in> set MUNDOS \<union> set ORIGENS \<union> set PODERES \<union> set LEGADOS.
     list_all (\<lambda>kv. 0 \<le> snd kv) (Escolha.atributos e)"
  by (simp add: MUNDOS_def ORIGENS_def PODERES_def LEGADOS_def)

lemma criacao_nao_neg:
  assumes "m \<in> set MUNDOS" "ori \<in> set ORIGENS" "pod \<in> set PODERES" "leg \<in> set LEGADOS"
  shows "nao_negativo (aplicar_escolhas (Personagem_init n m ori pod leg))"
proof -
  from assms catalogo_nao_neg
  have "\<forall>e \<in> set [m, ori, pod, leg]. list_all (\<lambda>kv. 0 \<le> snd kv) (Escolha.atributos e)"
    by auto
  from aplicar_lista_nao_neg [OF this, of "atributos (Personagem_init n m ori pod leg)"]
  show ?thesis
    by (simp add: nao_negativo_def aplicar_escolhas_def Personagem_init_def del: aplicar_lista.simps)
qed

lemma solicitar_indice_faixa:
  assumes "solicitar_indice n c = Inr (i, c1)"
  shows "0 \<le> i \<and> i < n"
proof (cases "\<exists>l \<in> set (entrada c). valida n l")
  case True
  then obtain ruins l resto where e: "entrada c = ruins @ l # resto" and v: "valida n l"
    and r: "\<forall>x \<in> set ruins. \<not> valida n x"
    by (metis split_list_first_prop)
  from v obtain k where k: "py_int l = Some k" "1 \<le> k" "k \<le> n"
    by (auto simp: valida_def split: option.splits)
  from solicitar_indice_apos_invalidas [OF e r k] assms k(2,3) show ?thesis by simp
next
  case False
  then have "\<forall>l \<in> set (entrada c). \<not> valida n l" by simp
  from solicitar_indice_so_invalidas [OF this] assms show ?thesis by simp
qed

lemma apresentar_opcoes_membro:
  assumes "apresentar_opcoes tit opcoes c = Inr (e, c1)"
  shows "e \<in> set opcoes"
proof -
  from assms obtain i c' where s: "solicitar_indice (int (length opcoes)) c = Inr (i, c')"
    and p: "py_index opcoes i = Inr e"
    by (auto simp: apresentar_opcoes_def split: sum.splits)
  from solicitar_indice_faixa [OF s] p have "e = opcoes ! nat i" "nat i < length opcoes"
    by (auto simp: py_index_def)
  then show ?thesis by simp
qed

lemma preparar_nao_neg:
  assumes "preparar_personagem c = Inr (p, c1)"
  shows "nao_negativo p"
proof -
  from assms obtain n m ori pod leg ca cb cc cd ce
    where "apresentar_opcoes ''Escolha seu novo mundo'' MUNDOS ca = Inr (m, cb)"
      and "apresentar_opcoes (''Qual ser'' @ [CHR 0xE1] @ '' sua nova origem?'') ORIGENS cb = Inr (ori, cc)"
      and "apresentar_opcoes (''Qual b'' @ [CHR 0xEA] @ ''n'' @ [CHR 0xE7] @ [CHR 0xE3] @ ''o deseja receber?'')
              PODERES cc = Inr (pod, cd)"
      and "apresentar_opcoes ''Qual legado pretende construir?'' LEGADOS cd = Inr (leg, ce)"
      and p: "p = aplicar_escolhas (Personagem_init n m ori pod leg)"
    unfolding preparar_personagem_def
    by (auto split: sum.splits)
  then have "m \<in> set MUNDOS" "ori \<in> set ORIGENS" "pod \<in> set PODERES" "leg \<in> set LEGADOS"
    by (auto dest: apresentar_opcoes_membro)
  then show ?thesis unfolding p by (rule criacao_nao_neg)
qed

lemma narrativa_nao_neg:
  assumes "nao_negativo p" and "narrativa resultado p g = (txt, p1, g1)"
  shows "nao_negativo p1"
proof -
  from assms(1) have a: "list_all (\<lambda>kv. 0 \<le> snd kv) (atributos p)"
    by (simp add: nao_negativo_def)
  from dict_get_nao_neg [OF a, of "''mana''"] have "0 \<le> dict_get (atributos p) ''mana'' 0 + 1"
    by simp
  from dict_set_nao_neg [OF a this, of "''mana''"] assms show ?thesis
    by (auto simp: narrativa_def Let_def nao_negativo_def split: prod.splits if_splits)
qed

lemma resolver_evento_nao_neg:
  assumes "nao_negativo p" and "resolver_evento p ev g c = Inr (descr, p1, g1, c1)"
  shows "nao_negativo p1"
proof -
  from assms(2) obtain resultado narr p' where n: "narrativa resultado p g = (narr, p', g1)"
    and p1: "p1 = (if resultado = ''gloria'' then p'\<lparr>gloria := gloria p' + 1\<rparr>
                  else if resultado = ''cicatriz'' then p'\<lparr>cicatrizes := cicatrizes p' + 1\<rparr>
                  else p')"
    by (auto simp: resolver_evento_def resolver_def split: sum.splits prod.splits)
  from narrativa_nao_neg [OF assms(1) n] show ?thesis
    unfolding p1 by (simp add: nao_negativo_def)
qed

lemma eventos_loop_nao_neg:
  "nao_negativo p \<Longrightarrow> eventos_loop es p g c = Inr (p1, g1, c1) \<Longrightarrow> nao_negativo p1"
proof (induction es arbitrary: p g c)
  case Nil
  then show ?case by simp
next
  case (Cons ev es)
  from Cons.prems(2) obtain narr p' g' c' where r: "resolver_evento p ev g c = Inr (narr, p', g', c')"
    and l: "eventos_loop es p' g' c' = Inr (p1, g1, c1)"
    by (auto split: sum.splits)
  from resolver_evento_nao_neg [OF Cons.prems(1) r] have "nao_negativo p'" .
  from Cons.IH [OF this l] show ?case .
qed

text \<open>
  C8. The character that creation returns (the four choices taken from the catalogue through
  the menus, their bonuses summed) has no negative attribute and no negative counter; every
  event resolution keeps that; so it holds after any number of the events of a run, and for
  the character at the end of a full run.
\<close>

theorem C8_nao_negativo:
  "(preparar_personagem c = Inr (p0, c0) \<longrightarrow> nao_negativo p0) \<and>
   (nao_negativo p \<and> resolver_evento p ev g c' = Inr (descr, p1, g1, c1) \<longrightarrow> nao_negativo p1) \<and>
   (\<forall>k. preparar_personagem c = Inr (p0, c0) \<and> eventos_loop (take k EVENTOS) p0 g c0 = Inr (pk, gk, ck)
        \<longrightarrow> nao_negativo pk) \<and>
   (jogar g c = Inr (pf, gf, cf) \<longrightarrow> nao_negativo pf)"
proof (intro conjI impI allI)
  assume "preparar_personagem c = Inr (p0, c0)"
  then show "nao_negativo p0" by (rule preparar_nao_neg)
next
  assume "nao_negativo p \<and> resolver_evento p ev g c' = Inr (descr, p1, g1, c1)"
  then show "nao_negativo p1" using resolver_evento_nao_neg by blast
next
  fix k
  assume "preparar_personagem c = Inr (p0, c0) \<and> eventos_loop (take k EVENTOS) p0 g c0 = Inr (pk, gk, ck)"
  then show "nao_negativo pk"
    using preparar_nao_neg eventos_loop_nao_neg by blast
next
  assume "jogar g c = Inr (pf, gf, cf)"
  then obtain p0 c0 where "preparar_personagem c = Inr (p0, c0)"
    and "eventos_loop EVENTOS p0 g c0 = Inr (pf, gf, cf)"
    by (auto simp: jogar_def simular_aventura_def split: sum.splits)
  then show "nao_negativo pf"
    using preparar_nao_neg eventos_loop_nao_neg by blast
qed

theorem C8_nao_negativo_witness:
  "preparar_personagem (console_de entrada_exemplo) =
     Inr (inicial_exemplo,
          \<lparr>entrada = [''1'', ''2'', ''1''],
           saida = [pergunta_nome, pergunta_indice, pergunta_indice, pergunta_indice, pergunta_indice]\<rparr>) \<and>
   nao_negativo inicial_exemplo \<and>
   nao_negativo (inicial_exemplo\<lparr>gloria := 1\<rparr>) \<and>
   jogar (sconst 0) (console_de entrada_exemplo) =
     Inr (final_exemplo, sconst 0,
          \<lparr>entrada = [],
           saida = [pergunta_nome, pergunta_indice, pergunta_indice, pergunta_indice, pergunta_indice,
                    pergunta_indice, pergunta_indice, pergunta_indice]\<rparr>) \<and>
   nao_negativo final_exemplo"
proof -
  from primeiro_evento_exemplo obtain descr where
    e: "resolver_evento inicial_exemplo (EVENTOS ! 0) (sconst 0)
       \<lparr>entrada = [''1'', ''2'', ''1''],
        saida = [pergunta_nome, pergunta_indice, pergunta_indice, pergunta_indice, pergunta_indice]\<rparr> =
     Inr (descr, inicial_exemplo\<lparr>gloria := 1\<rparr>, sconst 0,
          \<lparr>entrada = [''2'', ''1''],
           saida = [pergunta_nome, pergunta_indice, pergunta_indice, pergunta_indice, pergunta_indice,
                    pergunta_indice]\<rparr>)" ..
  note t = C8_nao_negativo [of "console_de entrada_exemplo" inicial_exemplo
      "\<lparr>entrada = [''1'', ''2'', ''1''],
        saida = [pergunta_nome, pergunta_indice, pergunta_indice, pergunta_indice, pergunta_indice]\<rparr>"
      inicial_exemplo "EVENTOS ! 0" "sconst 0"
      "\<lparr>entrada = [''1'', ''2'', ''1''],
        saida = [pergunta_nome, pergunta_indice, pergunta_indice, pergunta_indice, pergunta_indice]\<rparr>"
      descr "inicial_exemplo\<lparr>gloria := 1\<rparr>" "sconst 0"
      "\<lparr>entrada = [''2'', ''1''],
           saida = [pergunta_nome, pergunta_indice, pergunta_indice, pergunta_indice, pergunta_indice,
                    pergunta_indice]\<rparr>"
      inicial_exemplo "sconst 0"
      "\<lparr>entrada = [''1'', ''2'', ''1''],
        saida = [pergunta_nome, pergunta_indice, pergunta_indice, pergunta_indice, pergunta_indice]\<rparr>"
      final_exemplo "sconst 0"
      "\<lparr>entrada = [],
           saida = [pergunta_nome, pergunta_indice, pergunta_indice, pergunta_indice, pergunta_indice,
                    pergunta_indice, pergunta_indice, pergunta_indice]\<rparr>"]
  from t preparar_exemplo_inicial have a: "nao_negativo inicial_exemplo" by blast
  from t a e have b: "nao_negativo (inicial_exemplo\<lparr>gloria := 1\<rparr>)" by blast
  from t jogar_exemplo have c: "nao_negativo final_exemplo" by blast
  from preparar_exemplo_inicial a b jogar_exemplo c show ?thesis by blast
qed

subsection \<open>Wrapping changes whitespace only\<close>

lemma sem_espacos_append [simp]: "sem_espacos (a @ b) = sem_espacos a @ sem_espacos b"
  by (simp add: sem_espacos_def)

lemma sem_espacos_Nil [simp]: "sem_espacos [] = []"
  by (simp add: sem_espacos_def)

lemma sem_espacos_so_espacos: "so_espacos c \<Longrightarrow> sem_espacos c = []"
  by (induction c) (auto simp: so_espacos_def sem_espacos_def)

lemma sem_espacos_replicate: "sem_espacos (replicate n CHR '' '') = []"
  by (induction n) (auto simp: sem_espacos_def py_isspace_def cp_def)

lemma ws_char_isspace: "ws_char c \<Longrightarrow> py_isspace c"
  by (auto simp: ws_char_def py_isspace_def Let_def)

lemma sem_espacos_expandtabs: "sem_espacos (expandtabs j t) = sem_espacos t"
proof (induction t arbitrary: j)
  case Nil
  then show ?case by simp
next
  case (Cons c t)
  show ?case
  proof (cases "c = CHR 0x09")
    case True
    have "py_isspace (CHR 0x09)" by (simp add: py_isspace_def cp_def)
    then have "sem_espacos [CHR 0x09] = []" by (simp add: sem_espacos_def)
    then have "sem_espacos (CHR 0x09 # t) = sem_espacos t"
      using sem_espacos_append [of "[CHR 0x09]" t] by simp
    with True Cons.IH show ?thesis by (simp add: sem_espacos_replicate)
  next
    case False
    with Cons.IH show ?thesis by (simp add: sem_espacos_def)
  qed
qed

lemma sem_espacos_munge: "sem_espacos (munge_whitespace t) = sem_espacos t"
proof -
  have sp: "py_isspace CHR '' ''" by (simp add: py_isspace_def cp_def)
  have "sem_espacos (map (\<lambda>c. if ws_char c then CHR '' '' else c) u) = sem_espacos u" for u
    by (induction u) (auto simp: sem_espacos_def sp dest: ws_char_isspace)
  then show ?thesis by (simp add: munge_whitespace_def sem_espacos_expandtabs)
qed

lemma concat_split_chunks: "concat (split_chunks antes t) = t"
proof (induction antes t rule: split_chunks.induct)
  case (1 antes t)
  show ?case
  proof (cases "t = []")
    case True
    then show ?thesis by (simp add: split_chunks.simps)
  next
    case False
    with 1 [OF False refl] show ?thesis
      by (subst split_chunks.simps) (simp add: Let_def)
  qed
qed

lemma encher_concat: "encher n cs = (l, r) \<Longrightarrow> l @ r = cs"
proof (induction cs arbitrary: n l r)
  case Nil
  then show ?case by simp
next
  case (Cons c cs)
  then show ?case
    by (cases "n + length c \<le> largura") (auto split: prod.splits)
qed

lemma handle_long_word_concat:
  "handle_long_word cs l n = (l', r) \<Longrightarrow> concat l' @ concat r = concat l @ concat cs"
  by (cases cs) (auto simp: handle_long_word_def Let_def)

lemma palavra_longa_concat:
  "palavra_longa (l, r) = (l', r') \<Longrightarrow> concat l' @ concat r' = concat l @ concat r"
  by (cases r) (auto simp: palavra_longa_def dest: handle_long_word_concat split: if_splits)

lemma tirar_inicial_sem_espacos:
  "sem_espacos (concat (tirar_inicial b cs)) = sem_espacos (concat cs)"
  by (cases cs) (auto simp: tirar_inicial_def sem_espacos_so_espacos)

lemma tirar_final_sem_espacos:
  "sem_espacos (concat (tirar_final l)) = sem_espacos (concat l)"
proof (cases "l \<noteq> [] \<and> so_espacos (last l)")
  case True
  then have "l = butlast l @ [last l]" by simp
  then have "concat l = concat (butlast l) @ last l"
    by (metis concat.simps(1) concat.simps(2) concat_append append_Nil2)
  with True show ?thesis by (simp add: tirar_final_def sem_espacos_so_espacos)
next
  case False
  then show ?thesis by (auto simp: tirar_final_def)
qed

lemma uma_linha_sem_espacos:
  assumes "uma_linha b cs = (l, r)"
  shows "sem_espacos (concat l) @ sem_espacos (concat r) = sem_espacos (concat cs)"
proof -
  obtain l1 r1 where e: "encher 0 (tirar_inicial b cs) = (l1, r1)"
    by (cases "encher 0 (tirar_inicial b cs)")
  obtain l2 r2 where p: "palavra_longa (l1, r1) = (l2, r2)"
    by (cases "palavra_longa (l1, r1)")
  from assms e p have l: "l = tirar_final l2" and r: "r = r2"
    by (simp_all add: uma_linha_def)
  from encher_concat [OF e] have "concat l1 @ concat r1 = concat (tirar_inicial b cs)"
    by (metis concat_append)
  with palavra_longa_concat [OF p] have "concat l2 @ concat r2 = concat (tirar_inicial b cs)"
    by simp
  then have "sem_espacos (concat l2) @ sem_espacos (concat r2) = sem_espacos (concat cs)"
    by (metis sem_espacos_append tirar_inicial_sem_espacos)
  then show ?thesis by (simp add: l r tirar_final_sem_espacos)
qed

lemma wrap_chunks_sem_espacos:
  "sem_espacos (concat (wrap_chunks lines chunks)) =
     sem_espacos (concat lines) @ sem_espacos (concat chunks)"
proof (induction lines chunks rule: wrap_chunks.induct)
  case (1 lines chunks)
  show ?case
  proof (cases "chunks = []")
    case True
    then show ?thesis by (simp add: wrap_chunks.simps)
  next
    case False
    obtain l r where u: "uma_linha (lines = []) chunks = (l, r)"
      by (cases "uma_linha (lines = []) chunks")
    have "wrap_chunks lines chunks = wrap_chunks (if l \<noteq> [] then lines @ [concat l] else lines) r"
      using False u by (subst wrap_chunks.simps) simp
    also have "sem_espacos (concat \<dots>) =
        sem_espacos (concat (if l \<noteq> [] then lines @ [concat l] else lines)) @ sem_espacos (concat r)"
      using 1 [OF False u [symmetric] refl] .
    also have "\<dots> = sem_espacos (concat lines) @ sem_espacos (concat l) @ sem_espacos (concat r)"
      by auto
    also have "\<dots> = sem_espacos (concat lines) @ sem_espacos (concat chunks)"
      by (simp add: uma_linha_sem_espacos [OF u])
    finally show ?thesis .
  qed
qed

lemma join_sem_espacos: "sem_espacos sep = [] \<Longrightarrow> sem_espacos (join sep ls) = sem_espacos (concat ls)"
  by (induction sep ls rule: join.induct) simp_all

lemma sem_espacos_nl: "sem_espacos [CHR 0x0A] = []"
  by (simp add: sem_espacos_def py_isspace_def cp_def)

lemma wrap_sem_espacos: "sem_espacos (wrap t) = sem_espacos t"
  by (simp add: wrap_def fill_def join_sem_espacos sem_espacos_nl wrap_chunks_sem_espacos concat_split_chunks
      sem_espacos_munge)

subsection \<open>The attribute listing of the epilogue\<close>

lemma sublist_esq: "sublist x r \<Longrightarrow> sublist x (p @ r)"
proof -
  assume "sublist x r"
  then obtain ps ss where "r = ps @ x @ ss" by (auto simp: sublist_def)
  then have "p @ r = (p @ ps) @ x @ ss" by simp
  then show ?thesis unfolding sublist_def by blast
qed

lemma sublist_dir: "sublist x r \<Longrightarrow> sublist x (r @ s)"
proof -
  assume "sublist x r"
  then obtain ps ss where "r = ps @ x @ ss" by (auto simp: sublist_def)
  then have "r @ s = ps @ x @ (ss @ s)" by simp
  then show ?thesis unfolding sublist_def by blast
qed

lemma sublist_filter: "sublist x t \<Longrightarrow> sublist (filter P x) (filter P t)"
proof -
  assume "sublist x t"
  then obtain ps ss where "t = ps @ x @ ss" by (auto simp: sublist_def)
  then have "filter P t = filter P ps @ filter P x @ filter P ss" by simp
  then show ?thesis unfolding sublist_def by blast
qed

lemma sublist_join: "x \<in> set xs \<Longrightarrow> sublist x (join sep xs)"
proof (induction sep xs rule: join.induct)
  case (1 sep)
  then show ?case by simp
next
  case (2 sep y)
  then show ?case by simp
next
  case (3 sep y z zs)
  show ?case
  proof (cases "x = y")
    case True
    have "sublist y (y @ sep @ join sep (z # zs))" by (rule sublist_dir) simp
    with True show ?thesis by simp
  next
    case False
    with 3 have "sublist x (join sep (z # zs))" by simp
    then have "sublist x ((y @ sep) @ join sep (z # zs))" by (rule sublist_esq)
    then show ?thesis by simp
  qed
qed

lemma entrada_no_texto:
  assumes "(k, v) \<in> set (atributos p)"
  shows "sublist (capitalize k @ '': '' @ str_int v) (epilogo_texto p)"
proof -
  from assms have "entrada_resumo (k, v) \<in> set (map entrada_resumo (atributos p))"
    by simp
  then have "sublist (entrada_resumo (k, v)) (resumo_atributos p)"
    unfolding resumo_atributos_def by (rule sublist_join)
  then have "sublist (entrada_resumo (k, v)) (resumo_atributos p @ ''.'')"
    by (rule sublist_dir)
  then have "sublist (entrada_resumo (k, v))
     ((''No fim da aventura, '' @ Personagem.nome p @ '' registra '' @ str_int (gloria p) @
     '' feitos gloriosos e '' @ str_int (cicatrizes p) @ '' cicatrizes memor'' @ [CHR 0xE1] @
     ''veis. '' @ destino p @ '' A s'' @ [CHR 0xED] @ ''ntese do seu potencial: '') @
     resumo_atributos p @ ''.'')"
    by (rule sublist_esq)
  then show ?thesis
    by (simp add: epilogo_texto_def entrada_resumo_def)
qed

text \<open>
  C9, as the program has it. For every key of the attribute mapping, the text that the
  epilogue hands to \<open>wrap\<close> contains the entry: the key capitalized (by \<open>str.capitalize\<close>),
  a colon and a space, and the value in decimal. \<open>wrap\<close> changes whitespace only, so the
  epilogue itself contains the entry up to whitespace: no key is left out, but the space
  after the colon may have become a line break.
\<close>

theorem C9_resumo:
  assumes "(k, v) \<in> set (atributos p)"
  shows "sublist (capitalize k @ '': '' @ str_int v) (epilogo_texto p) \<and>
         epilogo p = wrap (epilogo_texto p) \<and>
         sublist (sem_espacos (capitalize k @ '': '' @ str_int v)) (sem_espacos (epilogo p))"
proof -
  from entrada_no_texto [OF assms]
  have a: "sublist (capitalize k @ '': '' @ str_int v) (epilogo_texto p)" .
  then have "sublist (sem_espacos (capitalize k @ '': '' @ str_int v)) (sem_espacos (epilogo_texto p))"
    unfolding sem_espacos_def by (rule sublist_filter)
  then have "sublist (sem_espacos (capitalize k @ '': '' @ str_int v)) (sem_espacos (epilogo p))"
    by (simp add: epilogo_def wrap_sem_espacos)
  with a show ?thesis by (simp add: epilogo_def)
qed

theorem C9_resumo_witness:
  "(''carisma'', 1) \<in> set (atributos final_exemplo) \<and>
   sublist ''Carisma: 1'' (epilogo_texto final_exemplo) \<and>
   sublist ''Carisma:1'' (sem_espacos (epilogo final_exemplo))"
proof -
  have b: "(''carisma'', 1) \<in> set (atributos final_exemplo)"
    by (simp add: final_exemplo_def)
  have c: "capitalize ''carisma'' @ '': '' @ str_int 1 = ''Carisma: 1''"
    by code_simp
  have d: "sem_espacos ''Carisma: 1'' = ''Carisma:1''"
    by code_simp
  from C9_resumo [OF b] b show ?thesis
    unfolding c d by blast
qed

text \<open>The claim as stated fails on a full run: the player is called Pedro Henrique, takes the
  second world and the first origin, power and legacy, and wins all three events. The line
  of 88 columns ends after \<open>Carisma:\<close>, and the value 1 starts the next line.\<close>

lemma epilogo_final_exemplo:
  "epilogo final_exemplo =
     ''No fim da aventura, Pedro Henrique registra 3 feitos gloriosos e 0 cicatrizes'' @ [CHR 0x0A] @
     ''memor'' @ [CHR 0xE1] @ ''veis. Voc'' @ [CHR 0xEA] @
     '' se torna uma lenda viva, venerado em can'' @ [CHR 0xE7] @ [CHR 0xF5] @
     ''es e invocado como patrono de'' @ [CHR 0x0A] @ ''her'' @ [CHR 0xF3] @ ''is por gera'' @
     [CHR 0xE7] @ [CHR 0xF5] @ ''es. A s'' @ [CHR 0xED] @
     ''ntese do seu potencial: Vigor: 5, Mana: 3, Sorte: 0, Carisma:'' @ [CHR 0x0A] @ ''1.''"
  by code_simp

theorem C9_contraexemplo:
  "map_sum id fst (jogar (sconst 0) (console_de entrada_exemplo)) = Inr final_exemplo \<and>
   (''carisma'', 1) \<in> set (atributos final_exemplo) \<and>
   capitalize ''carisma'' @ '': '' @ str_int 1 = ''Carisma: 1'' \<and>
   \<not> sublist ''Carisma: 1'' (epilogo final_exemplo)"
proof -
  have a: "map_sum id fst (jogar (sconst 0) (console_de entrada_exemplo)) = Inr final_exemplo"
    by (simp add: jogar_exemplo)
  have b: "(''carisma'', 1) \<in> set (atributos final_exemplo)"
    by (simp add: final_exemplo_def)
  have c: "capitalize ''carisma'' @ '': '' @ str_int 1 = ''Carisma: 1''"
    by code_simp
  have d: "\<not> sublist ''Carisma: 1'' (epilogo final_exemplo)"
    unfolding epilogo_final_exemplo by code_simp
  from a b c d show ?thesis by blast
qed

end
